theory Spec2Isabelle
  imports Main
begin

section \<open>Values of the surrounding platform\<close>

text \<open>
  A JSON value as the handlers see it after \<^verbatim>\<open>express.json()\<close>; \<open>JUndefined\<close> is
  JavaScript's \<^verbatim>\<open>undefined\<close> (a missing property, a missing body). An object is the
  association list of its properties.
\<close>

datatype jsval =
    JUndefined
  | JNull
  | JBool bool
  | JNum int
  | JStr string
  | JArr "jsval list"
  | JObj "(string \<times> jsval) list"

text \<open>JavaScript truthiness, as tested by \<^verbatim>\<open>if (x)\<close> and \<^verbatim>\<open>!x\<close>.\<close>

fun truthy :: "jsval \<Rightarrow> bool" where
  "truthy JUndefined = False"
| "truthy JNull = False"
| "truthy (JBool b) = b"
| "truthy (JNum n) = (n \<noteq> 0)"
| "truthy (JStr s) = (s \<noteq> [])"
| "truthy (JArr _) = True"
| "truthy (JObj _) = True"

text \<open>Reading a property of an object: \<^verbatim>\<open>undefined\<close> when it is missing.\<close>

definition prop_of :: "(string \<times> jsval) list \<Rightarrow> string \<Rightarrow> jsval" where
  "prop_of fs k = (case map_of fs k of None \<Rightarrow> JUndefined | Some v \<Rightarrow> v)"

text \<open>
  \<^verbatim>\<open>const { k } = v\<close>: a \<^verbatim>\<open>TypeError\<close> (here \<open>None\<close>) when \<open>v\<close> is
  \<^verbatim>\<open>undefined\<close> or \<^verbatim>\<open>null\<close>, the property when \<open>v\<close> is an object that has it,
  \<^verbatim>\<open>undefined\<close> otherwise.
\<close>

fun destructure :: "jsval \<Rightarrow> string \<Rightarrow> jsval option" where
  "destructure JUndefined k = None"
| "destructure JNull k = None"
| "destructure (JObj fs) k = Some (prop_of fs k)"
| "destructure v k = Some JUndefined"

text \<open>
  \<^verbatim>\<open>String.prototype.trim\<close>: white space and line terminators are removed at both
  ends. One \<open>char\<close> stands for one code unit; the white space of the first 256 code
  points is tab, line feed, vertical tab, form feed, carriage return, space and the
  no-break space.
\<close>

definition is_space :: "char \<Rightarrow> bool" where
  "is_space c = (c \<in> set [CHR 0x09, CHR 0x0A, CHR 0x0B, CHR 0x0C, CHR 0x0D, CHR 0x20, CHR 0xA0])"

definition trim :: "string \<Rightarrow> string" where
  "trim s = rev (dropWhile is_space (rev (dropWhile is_space s)))"

section \<open>Input validation (the zod schemas of the application)\<close>

type_synonym zpath = "string list"

datatype zod_issue =
    InvalidType zpath
  | TooSmall zpath string
  | TooBig zpath string

datatype zcheck = Min nat string | Max nat string | Trim

text \<open>
  The checks of a string schema run in the order they were chained; \<^verbatim>\<open>trim\<close> rewrites
  the value for the checks after it and for the output, and the issues accumulate.
\<close>

fun run_checks :: "zpath \<Rightarrow> zcheck list \<Rightarrow> string \<Rightarrow> zod_issue list \<times> string" where
  "run_checks p [] s = ([], s)"
| "run_checks p (Min n msg # cs) s =
     (let (is, s') = run_checks p cs s
      in ((if length s < n then [TooSmall p msg] else []) @ is, s'))"
| "run_checks p (Max n msg # cs) s =
     (let (is, s') = run_checks p cs s
      in ((if length s > n then [TooBig p msg] else []) @ is, s'))"
| "run_checks p (Trim # cs) s = run_checks p cs (trim s)"

definition z_string :: "zcheck list \<Rightarrow> zpath \<Rightarrow> jsval \<Rightarrow> zod_issue list + string" where
  "z_string cs p v =
     (case v of
        JStr s \<Rightarrow> (case run_checks p cs s of ([], s') \<Rightarrow> Inr s' | (is, _) \<Rightarrow> Inl is)
      | _ \<Rightarrow> Inl [InvalidType p])"

definition issues_of :: "zod_issue list + 'a \<Rightarrow> zod_issue list" where
  "issues_of r = (case r of Inl is \<Rightarrow> is | Inr _ \<Rightarrow> [])"

record user_input =
  in_username :: string
  in_password :: string

record content_input =
  in_title :: string
  in_link :: string

definition userSchema_parse :: "jsval \<Rightarrow> zod_issue list + user_input" where
  "userSchema_parse b =
     (case b of
        JObj fs \<Rightarrow>
          (let u = z_string
                     [Min 3 ''Username must be at least 3 characters'',
                      Max 50 ''Username cannot exceed 50 characters'',
                      Trim] [''username''] (prop_of fs ''username'');
               p = z_string
                     [Min 6 ''Password must be at least 6 characters'',
                      Max 100 ''Password cannot exceed 100 characters'']
                     [''password''] (prop_of fs ''password'')
           in case (u, p) of
                (Inr u', Inr p') \<Rightarrow> Inr \<lparr>in_username = u', in_password = p'\<rparr>
              | _ \<Rightarrow> Inl (issues_of u @ issues_of p))
      | _ \<Rightarrow> Inl [InvalidType []])"

definition contentSchema_parse :: "jsval \<Rightarrow> zod_issue list + content_input" where
  "contentSchema_parse b =
     (case b of
        JObj fs \<Rightarrow>
          (let t = z_string
                     [Min 1 ''Title is required'',
                      Max 200 ''Title cannot exceed 200 characters'',
                      Trim] [''title''] (prop_of fs ''title'');
               l = z_string
                     [Max 2000 ''URL cannot exceed 2000 characters'']
                     [''link''] (prop_of fs ''link'')
           in case (t, l) of
                (Inr t', Inr l') \<Rightarrow> Inr \<lparr>in_title = t', in_link = l'\<rparr>
              | _ \<Rightarrow> Inl (issues_of t @ issues_of l))
      | _ \<Rightarrow> Inl [InvalidType []])"

section \<open>Data model (the mongoose schemas)\<close>

text \<open>An \<^verbatim>\<open>ObjectId\<close>, by its hexadecimal string form (the form it has in JSON).\<close>

type_synonym oid = string

record user_doc =
  u_id :: oid
  u_username :: string
  u_password :: string

record content_doc =
  c_id :: oid
  c_title :: string
  c_link :: string
  c_tags :: "oid list"
  c_userId :: oid

record tag_doc =
  t_id :: oid
  t_name :: string
  t_color :: string

record share_doc =
  s_id :: oid
  s_hash :: string
  s_userId :: oid
  s_createdAt :: nat

text \<open>The four collections, each in insertion order.\<close>

record store =
  users :: "user_doc list"
  contents :: "content_doc list"
  tags :: "tag_doc list"
  shares :: "share_doc list"

definition empty_store :: "tag_doc list \<Rightarrow> store" where
  "empty_store ts = \<lparr>users = [], contents = [], tags = ts, shares = []\<rparr>"

section \<open>Libraries and configuration the application is linked against\<close>

text \<open>The claims of a token: the application's \<^verbatim>\<open>id\<close> and the registered time claims.\<close>

record jwt_payload =
  p_id :: jsval
  p_iat :: nat
  p_nbf :: "nat option"
  p_exp :: "nat option"

text \<open>
  What is not code of the application and is not computed here:
  \<^item> \<open>JWT_PASSWORD\<close>: the signing secret exported by \<^verbatim>\<open>config.js\<close>;
  \<^item> \<open>castObjectId\<close>: mongoose's cast of a query or document value to an \<^verbatim>\<open>ObjectId\<close>
    (\<open>None\<close> when the cast fails);
  \<^item> \<open>queryOperators\<close>: for a filter value that is an operator document (such as
    \<^verbatim>\<open>{"$ne": null}\<close> or \<^verbatim>\<open>{"$in": [...]}\<close>) on an \<^verbatim>\<open>ObjectId\<close> path, the condition the
    store evaluates on the stored id once mongoose has cast the operands (\<open>None\<close> when
    mongoose refuses an operator or an operand);
  \<^item> \<open>bcrypt_hash password salt\<close>: \<^verbatim>\<open>bcrypt.hash\<close> (\<open>None\<close> when it reports an error);
  \<^item> \<open>jws_sign payload secret\<close>: the compact serialisation of the signed payload;
  \<^item> \<open>jws_verify token secret\<close>: the payload of a well-formed token whose signature
    matches the secret, \<open>None\<close> for any other string.
\<close>

record env =
  JWT_PASSWORD :: string
  castObjectId :: "jsval \<Rightarrow> oid option"
  queryOperators :: "(string \<times> jsval) list \<Rightarrow> (oid \<Rightarrow> bool) option"
  bcrypt_hash :: "string \<Rightarrow> string \<Rightarrow> string option"
  jws_sign :: "jwt_payload \<Rightarrow> string \<Rightarrow> string"
  jws_verify :: "string \<Rightarrow> string \<Rightarrow> jwt_payload option"

text \<open>
  What one request draws from outside: the clock (\<^verbatim>\<open>Date.now()\<close>, milliseconds), the
  \<^verbatim>\<open>_id\<close> mongoose generates for a created document, the salt of
  \<^verbatim>\<open>bcrypt.genSalt(10)\<close> and the string of \<^verbatim>\<open>random(10)\<close> (\<^verbatim>\<open>utils.js\<close>).
\<close>

record io =
  io_now :: nat
  io_objectId :: oid
  io_salt :: string
  io_random :: string

subsection \<open>bcryptjs\<close>

text \<open>
  \<^verbatim>\<open>bcrypt.compare(s, hash)\<close>: \<^verbatim>\<open>false\<close> when the hash is not 60 characters long;
  otherwise \<open>s\<close> is hashed with the salt the hash starts with (its first 29 characters)
  and the two strings are compared.
\<close>

definition bcrypt_compare :: "env \<Rightarrow> string \<Rightarrow> string \<Rightarrow> bool option" where
  "bcrypt_compare env s h =
     (if length h \<noteq> 60 then Some False
      else (case bcrypt_hash env s (take 29 h) of
              None \<Rightarrow> None
            | Some c \<Rightarrow> Some (c = h)))"

subsection \<open>jsonwebtoken\<close>

datatype jwt_error = JsonWebTokenError string | NotBeforeError | TokenExpiredError

text \<open>The time span \<^verbatim>\<open>'24h'\<close> of \<^verbatim>\<open>expiresIn\<close>, in seconds.\<close>

definition span_24h :: nat where
  "span_24h = 24 * 60 * 60"

text \<open>
  \<^verbatim>\<open>jwt.sign(payload, secret, { expiresIn })\<close>: \<^verbatim>\<open>iat\<close> is the clock in whole seconds,
  \<^verbatim>\<open>exp\<close> is \<^verbatim>\<open>iat\<close> plus the span; an empty secret is an error.
\<close>

definition jwt_sign :: "env \<Rightarrow> jsval \<Rightarrow> string \<Rightarrow> nat \<Rightarrow> nat \<Rightarrow> string + string" where
  "jwt_sign env ident secret expiresIn now =
     (if secret = [] then Inl ''secretOrPrivateKey must have a value''
      else (let timestamp = now div 1000
            in Inr (jws_sign env
                      \<lparr>p_id = ident, p_iat = timestamp, p_nbf = None,
                       p_exp = Some (timestamp + expiresIn)\<rparr> secret)))"

text \<open>
  \<^verbatim>\<open>jwt.verify(token, secret)\<close>: the token must be present, well-formed and signed with
  the secret; then \<^verbatim>\<open>nbf\<close> and \<^verbatim>\<open>exp\<close> are compared with the clock in whole seconds.
\<close>

definition jwt_verify :: "env \<Rightarrow> string \<Rightarrow> string \<Rightarrow> nat \<Rightarrow> jwt_error + jwt_payload" where
  "jwt_verify env token secret now =
     (if token = [] then Inl (JsonWebTokenError ''jwt must be provided'')
      else if secret = [] then Inl (JsonWebTokenError ''secret or public key must be provided'')
      else (case jws_verify env token secret of
              None \<Rightarrow> Inl (JsonWebTokenError ''invalid token'')
            | Some payload \<Rightarrow>
                (let clockTimestamp = now div 1000
                 in if (case p_nbf payload of None \<Rightarrow> False | Some n \<Rightarrow> n > clockTimestamp)
                    then Inl NotBeforeError
                    else if (case p_exp payload of None \<Rightarrow> False | Some e \<Rightarrow> clockTimestamp \<ge> e)
                    then Inl TokenExpiredError
                    else Inr payload)))"

section \<open>The models (db.ts)\<close>

datatype store_error = ValidationError | CastError | DuplicateKey | HookError

fun delete_first :: "('a \<Rightarrow> bool) \<Rightarrow> 'a list \<Rightarrow> 'a list" where
  "delete_first P [] = []"
| "delete_first P (x # xs) = (if P x then xs else x # delete_first P xs)"

subsection \<open>User\<close>

text \<open>
  \<^verbatim>\<open>UserSchema.pre('save')\<close>: nothing when the password was not modified; otherwise the
  password is replaced by its hash under a new salt, and an error of bcrypt fails the save.
\<close>

definition UserSchema_pre_save :: "env \<Rightarrow> io \<Rightarrow> bool \<Rightarrow> user_doc \<Rightarrow> user_doc option" where
  "UserSchema_pre_save env io isModified_password this =
     (if \<not> isModified_password then Some this
      else (case bcrypt_hash env (u_password this) (io_salt io) of
              None \<Rightarrow> None
            | Some h \<Rightarrow> Some (this\<lparr>u_password := h\<rparr>)))"

definition comparePassword :: "env \<Rightarrow> user_doc \<Rightarrow> string \<Rightarrow> bool option" where
  "comparePassword env this candidatePassword =
     bcrypt_compare env candidatePassword (u_password this)"

text \<open>
  \<^verbatim>\<open>UserModel.create\<close>: the setter trims the username; validation (required, minlength)
  runs before the save hook; the insert fails on the unique indexes (\<^verbatim>\<open>_id\<close>, username).
  A new document has every path modified.
\<close>

definition User_create :: "env \<Rightarrow> io \<Rightarrow> store \<Rightarrow> string \<Rightarrow> string \<Rightarrow> store_error + store" where
  "User_create env io st username password =
     (let doc = \<lparr>u_id = io_objectId io, u_username = trim username, u_password = password\<rparr>
      in if u_username doc = [] \<or> length (u_username doc) < 3
            \<or> u_password doc = [] \<or> length (u_password doc) < 6
         then Inl ValidationError
         else (case UserSchema_pre_save env io True doc of
                 None \<Rightarrow> Inl HookError
               | Some saved \<Rightarrow>
                   if u_id saved \<in> set (map u_id (users st))
                      \<or> u_username saved \<in> set (map u_username (users st))
                   then Inl DuplicateKey
                   else Inr (st\<lparr>users := users st @ [saved]\<rparr>)))"

definition User_findOne_username :: "store \<Rightarrow> string \<Rightarrow> user_doc option" where
  "User_findOne_username st name = find (\<lambda>u. u_username u = name) (users st)"

definition User_findOne_id :: "store \<Rightarrow> oid \<Rightarrow> user_doc option" where
  "User_findOne_id st i = find (\<lambda>u. u_id u = i) (users st)"

subsection \<open>Content\<close>

text \<open>
  \<^verbatim>\<open>ContentModel.create\<close>: title, link and owner are required, the owner is cast to an
  \<^verbatim>\<open>ObjectId\<close>; the insert fails on the unique indexes (\<^verbatim>\<open>_id\<close>, title).
\<close>

definition Content_create ::
  "env \<Rightarrow> io \<Rightarrow> store \<Rightarrow> string \<Rightarrow> string \<Rightarrow> oid list \<Rightarrow> jsval \<Rightarrow> store_error + content_doc \<times> store" where
  "Content_create env io st title link tgs userId =
     (case castObjectId env userId of
        None \<Rightarrow> Inl ValidationError
      | Some u \<Rightarrow>
          if title = [] \<or> link = [] then Inl ValidationError
          else (let doc = \<lparr>c_id = io_objectId io, c_title = title, c_link = link,
                           c_tags = tgs, c_userId = u\<rparr>
                in if c_id doc \<in> set (map c_id (contents st))
                      \<or> c_title doc \<in> set (map c_title (contents st))
                   then Inl DuplicateKey
                   else Inr (doc, st\<lparr>contents := contents st @ [doc]\<rparr>)))"

definition Content_find :: "env \<Rightarrow> store \<Rightarrow> jsval \<Rightarrow> store_error + content_doc list" where
  "Content_find env st userId =
     (case castObjectId env userId of
        None \<Rightarrow> Inl CastError
      | Some u \<Rightarrow> Inr (filter (\<lambda>c. c_userId c = u) (contents st)))"

definition Content_find_owner :: "store \<Rightarrow> oid \<Rightarrow> content_doc list" where
  "Content_find_owner st u = filter (\<lambda>c. c_userId c = u) (contents st)"

text \<open>A key of a filter value is an operator when it starts with a dollar sign.\<close>

definition isOperator :: "string \<Rightarrow> bool" where
  "isOperator k = (case k of [] \<Rightarrow> False | c # _ \<Rightarrow> c = CHR ''$'')"

text \<open>
  The condition a filter value puts on an \<^verbatim>\<open>ObjectId\<close> path once mongoose has cast the
  filter (\<open>None\<close> when the cast throws):
  \<^item> \<^verbatim>\<open>null\<close> and \<^verbatim>\<open>undefined\<close> are left as they are, and no stored id is null;
  \<^item> an object with an operator among its keys is an operator document;
  \<^item> an array becomes \<^verbatim>\<open>$in\<close> over its items, each cast to an \<^verbatim>\<open>ObjectId\<close>;
  \<^item> any other value is cast to an \<^verbatim>\<open>ObjectId\<close> and compared for equality.
\<close>

definition cast_id_filter :: "env \<Rightarrow> jsval \<Rightarrow> (oid \<Rightarrow> bool) option" where
  "cast_id_filter env val =
     (case val of
        JUndefined \<Rightarrow> Some (\<lambda>i. False)
      | JNull \<Rightarrow> Some (\<lambda>i. False)
      | JObj fs \<Rightarrow>
          if list_ex (\<lambda>kv. isOperator (fst kv)) fs then queryOperators env fs
          else map_option (\<lambda>x. (\<lambda>i. i = x)) (castObjectId env val)
      | JArr vals \<Rightarrow>
          if list_all (\<lambda>v. castObjectId env v \<noteq> None) vals
          then Some (\<lambda>i. i \<in> set (List.map_filter (castObjectId env) vals))
          else None
      | _ \<Rightarrow> map_option (\<lambda>x. (\<lambda>i. i = x)) (castObjectId env val))"

text \<open>
  \<^verbatim>\<open>ContentModel.findOneAndDelete({ _id: contentId, userId: req.userId })\<close>. The handler
  hands over the \<^verbatim>\<open>contentId\<close> of the body as it came, so it is cast as a filter value;
  the owner is the identity of a token the application signed. The first content that
  meets both conditions is removed and returned.
\<close>

definition Content_findOneAndDelete ::
  "env \<Rightarrow> store \<Rightarrow> jsval \<Rightarrow> jsval \<Rightarrow> store_error + content_doc option \<times> store" where
  "Content_findOneAndDelete env st contentId userId =
     (case (cast_id_filter env contentId, castObjectId env userId) of
        (Some idCondition, Some u) \<Rightarrow>
          (let matches = (\<lambda>c. idCondition (c_id c) \<and> c_userId c = u)
           in case find matches (contents st) of
                None \<Rightarrow> Inr (None, st)
              | Some d \<Rightarrow> Inr (Some d, st\<lparr>contents := delete_first matches (contents st)\<rparr>))
      | _ \<Rightarrow> Inl CastError)"

subsection \<open>Share\<close>

definition Share_findOne_userId :: "env \<Rightarrow> store \<Rightarrow> jsval \<Rightarrow> store_error + share_doc option" where
  "Share_findOne_userId env st userId =
     (case castObjectId env userId of
        None \<Rightarrow> Inl CastError
      | Some u \<Rightarrow> Inr (find (\<lambda>l. s_userId l = u) (shares st)))"

definition Share_findOne_hash :: "store \<Rightarrow> string \<Rightarrow> share_doc option" where
  "Share_findOne_hash st h = find (\<lambda>l. s_hash l = h) (shares st)"

text \<open>
  \<^verbatim>\<open>ShareModel.create\<close>: hash and owner are required, \<^verbatim>\<open>createdAt\<close> defaults to the
  clock; the insert fails on the unique indexes (\<^verbatim>\<open>_id\<close>, hash).
\<close>

definition Share_create :: "env \<Rightarrow> io \<Rightarrow> store \<Rightarrow> jsval \<Rightarrow> string \<Rightarrow> store_error + store" where
  "Share_create env io st userId hash =
     (case castObjectId env userId of
        None \<Rightarrow> Inl ValidationError
      | Some u \<Rightarrow>
          if hash = [] then Inl ValidationError
          else (let doc = \<lparr>s_id = io_objectId io, s_hash = hash, s_userId = u,
                           s_createdAt = io_now io\<rparr>
                in if s_id doc \<in> set (map s_id (shares st))
                      \<or> s_hash doc \<in> set (map s_hash (shares st))
                   then Inl DuplicateKey
                   else Inr (st\<lparr>shares := shares st @ [doc]\<rparr>)))"

definition Share_deleteOne :: "env \<Rightarrow> store \<Rightarrow> jsval \<Rightarrow> store_error + store" where
  "Share_deleteOne env st userId =
     (case castObjectId env userId of
        None \<Rightarrow> Inl CastError
      | Some u \<Rightarrow> Inr (st\<lparr>shares := delete_first (\<lambda>l. s_userId l = u) (shares st)\<rparr>))"

subsection \<open>Population of references\<close>

record tag_view =
  tv_id :: oid
  tv_name :: string
  tv_color :: string

datatype user_ref = Ref oid | Populated oid string | RefNull

record content_view =
  cv_id :: oid
  cv_title :: string
  cv_link :: string
  cv_tags :: "tag_view list"
  cv_userId :: user_ref

text \<open>\<^verbatim>\<open>populate("tags", "name color")\<close>: a reference with no tag document is dropped.\<close>

definition populate_tags :: "store \<Rightarrow> oid list \<Rightarrow> tag_view list" where
  "populate_tags st ids =
     List.map_filter
       (\<lambda>i. case find (\<lambda>t. t_id t = i) (tags st) of
               None \<Rightarrow> None
             | Some t \<Rightarrow> Some \<lparr>tv_id = t_id t, tv_name = t_name t, tv_color = t_color t\<rparr>)
       ids"

text \<open>\<^verbatim>\<open>populate("userId", "username")\<close>: \<^verbatim>\<open>null\<close> when the user document is missing.\<close>

definition populate_user :: "store \<Rightarrow> oid \<Rightarrow> user_ref" where
  "populate_user st u =
     (case User_findOne_id st u of
        None \<Rightarrow> RefNull
      | Some d \<Rightarrow> Populated (u_id d) (u_username d))"

definition view_with_user_and_tags :: "store \<Rightarrow> content_doc \<Rightarrow> content_view" where
  "view_with_user_and_tags st c =
     \<lparr>cv_id = c_id c, cv_title = c_title c, cv_link = c_link c,
      cv_tags = populate_tags st (c_tags c), cv_userId = populate_user st (c_userId c)\<rparr>"

definition view_with_tags :: "store \<Rightarrow> content_doc \<Rightarrow> content_view" where
  "view_with_tags st c =
     \<lparr>cv_id = c_id c, cv_title = c_title c, cv_link = c_link c,
      cv_tags = populate_tags st (c_tags c), cv_userId = Ref (c_userId c)\<rparr>"

section \<open>Responses\<close>

text \<open>The payload of a \<^verbatim>\<open>data\<close> property.\<close>

datatype resdata =
    Document content_doc
  | Documents "content_view list"
  | Brain string "content_view list" nat

text \<open>
  The JSON bodies the application sends, by shape:
  \<^verbatim>\<open>{error}\<close>, \<^verbatim>\<open>{status, message}\<close>, \<^verbatim>\<open>{status, message, token}\<close>,
  \<^verbatim>\<open>{status, message?, data}\<close>, \<^verbatim>\<open>{status, message, errors}\<close> and
  \<^verbatim>\<open>{status, hash, message?}\<close>.
\<close>

datatype resbody =
    JsonError string
  | JsonMessage string string
  | JsonToken string string string
  | JsonData string "string option" resdata
  | JsonErrors string string "zod_issue list"
  | JsonHash string string "string option"

record response =
  code :: nat
  body :: resbody

definition json :: "nat \<Rightarrow> resbody \<Rightarrow> response" where
  "json c b = \<lparr>code = c, body = b\<rparr>"

section \<open>The access guard (middleware.ts)\<close>

text \<open>
  \<open>Inl\<close> is the response the guard sends itself; \<open>Inr\<close> is \<^verbatim>\<open>next()\<close> with
  \<^verbatim>\<open>req.userId\<close> set to the value given. The header is \<open>None\<close> when the request has
  no \<^verbatim>\<open>authorization\<close> header.
\<close>

definition userMiddleware :: "env \<Rightarrow> nat \<Rightarrow> string option \<Rightarrow> response + jsval" where
  "userMiddleware env now authorization =
     (case authorization of
        None \<Rightarrow> Inl (json 401 (JsonError ''Invalid Token''))
      | Some token \<Rightarrow>
          if token = [] then Inl (json 401 (JsonError ''Invalid Token''))
          else (case jwt_verify env token (JWT_PASSWORD env) now of
                  Inl error \<Rightarrow> Inl (json 401 (JsonError ''Invalid or expired token''))
                | Inr decodedData \<Rightarrow>
                    if \<not> truthy (p_id decodedData)
                    then Inl (json 401 (JsonError ''Invalid token payload''))
                    else Inr (p_id decodedData)))"

section \<open>The request handlers (index.ts)\<close>

text \<open>
  The source holds two versions of \<^verbatim>\<open>index.ts\<close> and of \<^verbatim>\<open>db.ts\<close>; the later ones add
  the share model and the two share routes and change nothing else. The model follows
  the later versions. A handler takes the store and returns its response and the store
  it leaves; what a \<^verbatim>\<open>catch\<close> block answers is the branch of the error.
\<close>

definition signin :: "env \<Rightarrow> io \<Rightarrow> store \<Rightarrow> jsval \<Rightarrow> response \<times> store" where
  "signin env io st reqbody =
     (case userSchema_parse reqbody of
        Inl error \<Rightarrow> (json 500 (JsonMessage ''error'' ''Internal server error''), st)
      | Inr validatedData \<Rightarrow>
          (case User_findOne_username st (in_username validatedData) of
             Some existingUser \<Rightarrow>
               (json 409 (JsonMessage ''error'' ''Username already exists''), st)
           | None \<Rightarrow>
               (case User_create env io st (in_username validatedData) (in_password validatedData) of
                  Inl error \<Rightarrow> (json 500 (JsonMessage ''error'' ''Internal server error''), st)
                | Inr st' \<Rightarrow>
                    (json 201 (JsonMessage ''success'' ''User created successfully''), st'))))"

definition login :: "env \<Rightarrow> io \<Rightarrow> store \<Rightarrow> jsval \<Rightarrow> response \<times> store" where
  "login env io st reqbody =
     (case userSchema_parse reqbody of
        Inl error \<Rightarrow> (json 500 (JsonMessage ''error'' ''Internal server error''), st)
      | Inr validatedData \<Rightarrow>
          (case User_findOne_username st (in_username validatedData) of
             None \<Rightarrow> (json 401 (JsonMessage ''error'' ''Invalid credentials''), st)
           | Some user \<Rightarrow>
               (case comparePassword env user (in_password validatedData) of
                  None \<Rightarrow> (json 500 (JsonMessage ''error'' ''Internal server error''), st)
                | Some isValidPassword \<Rightarrow>
                    if \<not> isValidPassword
                    then (json 401 (JsonMessage ''error'' ''Invalid credentials''), st)
                    else (case jwt_sign env (JStr (u_id user)) (JWT_PASSWORD env) span_24h (io_now io) of
                            Inl error \<Rightarrow>
                              (json 500 (JsonMessage ''error'' ''Internal server error''), st)
                          | Inr token \<Rightarrow>
                              (json 200 (JsonToken ''success'' ''Login successful'' token), st)))))"

definition post_content :: "env \<Rightarrow> io \<Rightarrow> store \<Rightarrow> jsval \<Rightarrow> jsval \<Rightarrow> response \<times> store" where
  "post_content env io st userId reqbody =
     (case contentSchema_parse reqbody of
        Inl issues \<Rightarrow> (json 400 (JsonErrors ''error'' ''Validation failed'' issues), st)
      | Inr validatedData \<Rightarrow>
          (case Content_create env io st (in_title validatedData) (in_link validatedData) [] userId of
             Inl error \<Rightarrow> (json 500 (JsonMessage ''error'' ''Failed to add content''), st)
           | Inr (content, st') \<Rightarrow>
               (json 201 (JsonData ''success'' (Some ''Content added successfully'')
                            (Document content)), st')))"

definition get_content :: "env \<Rightarrow> store \<Rightarrow> jsval \<Rightarrow> response \<times> store" where
  "get_content env st userId =
     (case Content_find env st userId of
        Inl error \<Rightarrow> (json 500 (JsonMessage ''error'' ''Failed to fetch content''), st)
      | Inr found \<Rightarrow>
          (json 200 (JsonData ''success'' None
                       (Documents (map (view_with_user_and_tags st) found))), st))"

definition not_found_or_forbidden :: string where
  "not_found_or_forbidden =
     ''Content not found or you don'' @ [CHR 0x27] @ ''t have permission to delete it''"

definition delete_content :: "env \<Rightarrow> store \<Rightarrow> jsval \<Rightarrow> jsval \<Rightarrow> response \<times> store" where
  "delete_content env st userId reqbody =
     (case destructure reqbody ''contentId'' of
        None \<Rightarrow> (json 500 (JsonMessage ''error'' ''Failed to delete content''), st)
      | Some contentId \<Rightarrow>
          if \<not> truthy contentId
          then (json 400 (JsonMessage ''error'' ''Content ID is required''), st)
          else (case Content_findOneAndDelete env st contentId userId of
                  Inl error \<Rightarrow> (json 500 (JsonMessage ''error'' ''Failed to delete content''), st)
                | Inr (deletedContent, st') \<Rightarrow>
                    (case deletedContent of
                       None \<Rightarrow> (json 404 (JsonMessage ''error'' not_found_or_forbidden), st')
                     | Some _ \<Rightarrow>
                         (json 200 (JsonMessage ''success'' ''Content deleted successfully''), st'))))"

definition brain_share :: "env \<Rightarrow> io \<Rightarrow> store \<Rightarrow> jsval \<Rightarrow> jsval \<Rightarrow> response \<times> store" where
  "brain_share env io st userId reqbody =
     (case destructure reqbody ''share'' of
        None \<Rightarrow> (json 500 (JsonMessage ''error'' ''Failed to process share request''), st)
      | Some share \<Rightarrow>
          if truthy share
          then (case Share_findOne_userId env st userId of
                  Inl error \<Rightarrow>
                    (json 500 (JsonMessage ''error'' ''Failed to process share request''), st)
                | Inr (Some existingLink) \<Rightarrow>
                    (json 200 (JsonHash ''success'' (s_hash existingLink) None), st)
                | Inr None \<Rightarrow>
                    (let hash = io_random io
                     in case Share_create env io st userId hash of
                          Inl error \<Rightarrow>
                            (json 500 (JsonMessage ''error'' ''Failed to process share request''), st)
                        | Inr st' \<Rightarrow>
                            (json 200 (JsonHash ''success'' hash (Some ''Share link created'')), st')))
          else (case Share_deleteOne env st userId of
                  Inl error \<Rightarrow>
                    (json 500 (JsonMessage ''error'' ''Failed to process share request''), st)
                | Inr st' \<Rightarrow> (json 200 (JsonMessage ''success'' ''Share link removed''), st')))"

definition get_brain :: "store \<Rightarrow> string \<Rightarrow> response \<times> store" where
  "get_brain st hash =
     (case Share_findOne_hash st hash of
        None \<Rightarrow> (json 404 (JsonMessage ''error'' ''Share link not found''), st)
      | Some link \<Rightarrow>
          (let content = map (view_with_tags st) (Content_find_owner st (s_userId link))
           in case User_findOne_id st (s_userId link) of
                None \<Rightarrow> (json 404 (JsonMessage ''error'' ''User not found''), st)
              | Some user \<Rightarrow>
                  (json 200 (JsonData ''success'' None
                               (Brain (u_username user) content (s_createdAt link))), st)))"

subsection \<open>Routing\<close>

datatype route =
    POST_signin
  | POST_login
  | POST_content
  | GET_content
  | DELETE_content
  | POST_brain_share
  | GET_brain string

record request =
  route :: route
  authorization :: "string option"
  reqbody :: jsval

text \<open>A route registered with \<open>userMiddleware\<close> reaches its handler only through the guard.\<close>

definition guarded ::
  "env \<Rightarrow> io \<Rightarrow> store \<Rightarrow> request \<Rightarrow> (jsval \<Rightarrow> response \<times> store) \<Rightarrow> response \<times> store" where
  "guarded env io st req handler =
     (case userMiddleware env (io_now io) (authorization req) of
        Inl res \<Rightarrow> (res, st)
      | Inr userId \<Rightarrow> handler userId)"

definition app :: "env \<Rightarrow> io \<Rightarrow> store \<Rightarrow> request \<Rightarrow> response \<times> store" where
  "app env io st req =
     (case route req of
        POST_signin \<Rightarrow> signin env io st (reqbody req)
      | POST_login \<Rightarrow> login env io st (reqbody req)
      | POST_content \<Rightarrow> guarded env io st req (\<lambda>userId. post_content env io st userId (reqbody req))
      | GET_content \<Rightarrow> guarded env io st req (\<lambda>userId. get_content env st userId)
      | DELETE_content \<Rightarrow>
          guarded env io st req (\<lambda>userId. delete_content env st userId (reqbody req))
      | POST_brain_share \<Rightarrow>
          guarded env io st req (\<lambda>userId. brain_share env io st userId (reqbody req))
      | GET_brain shareLink \<Rightarrow> get_brain st shareLink)"

text \<open>
  The states the application reaches: it starts on a store with no user, content or share
  mapping (tags are seeded from outside) and serves one request after the other.
\<close>

inductive reachable :: "env \<Rightarrow> store \<Rightarrow> bool" for env :: env where
  start: "reachable env (empty_store ts)"
| serve: "reachable env st \<Longrightarrow> reachable env (snd (app env io st req))"

section \<open>A concrete instance, for evaluating the model\<close>

text \<open>
  Two identities, a signing secret, and stand-ins for the libraries: a cast that accepts
  the strings of 24 characters, operator documents of which \<^verbatim>\<open>{"$ne": null}\<close> alone is
  known (every stored id differs from \<^verbatim>\<open>null\<close>), a hash that joins the salt and the
  padded password into 60 characters, and a signature scheme that knows one token.
\<close>

definition alice_id :: oid where "alice_id = ''0000000000000000000000a1''"
definition bob_id :: oid where "bob_id = ''0000000000000000000000b2''"
definition example_salt :: string where "example_salt = ''$2a$10$abcdefghijklmnopqrstuv''"

definition example_payload :: jwt_payload where
  "example_payload = \<lparr>p_id = JStr alice_id, p_iat = 5, p_nbf = None, p_exp = Some 86405\<rparr>"

definition example_token :: string where "example_token = ''token.of.alice''"

definition example_env :: env where
  "example_env =
     \<lparr>JWT_PASSWORD = ''s3cret'',
      castObjectId = (\<lambda>v. case v of JStr s \<Rightarrow> if length s = 24 then Some s else None | _ \<Rightarrow> None),
      queryOperators = (\<lambda>fs. if fs = [(''$ne'', JNull)] then Some (\<lambda>i. True) else None),
      bcrypt_hash = (\<lambda>password salt.
         if length salt = 29
         then Some (salt @ take 31 (password @ ''...............................''))
         else None),
      jws_sign = (\<lambda>payload secret. example_token),
      jws_verify = (\<lambda>token secret.
         if token = example_token \<and> secret = ''s3cret'' then Some example_payload else None)\<rparr>"

definition example_io :: io where
  "example_io = \<lparr>io_now = 5000, io_objectId = alice_id, io_salt = example_salt, io_random = ''Ab3dE6gH1j''\<rparr>"

definition alice_body :: jsval where
  "alice_body = JObj [(''username'', JStr ''alice''), (''password'', JStr ''secret1'')]"

definition example_users :: store where
  "example_users =
     \<lparr>users = [\<lparr>u_id = alice_id, u_username = ''alice'',
                u_password = example_salt @ ''secret1........................''\<rparr>],
      contents = [], tags = [], shares = []\<rparr>"

definition unknown_user_body :: jsval where
  "unknown_user_body = JObj [(''username'', JStr ''mallory''), (''password'', JStr ''secret1'')]"

definition wrong_password_body :: jsval where
  "wrong_password_body = JObj [(''username'', JStr ''alice''), (''password'', JStr ''letmein'')]"

definition share_io :: io where
  "share_io = \<lparr>io_now = 6000, io_objectId = ''0000000000000000000000d4'', io_salt = example_salt,
               io_random = ''Ab3dE6gH1j''\<rparr>"

definition later_io :: io where
  "later_io = \<lparr>io_now = 7000, io_objectId = ''0000000000000000000000e5'', io_salt = example_salt,
               io_random = ''Zz9yX8wV7u''\<rparr>"

definition share_on :: jsval where "share_on = JObj [(''share'', JBool True)]"
definition share_off :: jsval where "share_off = JObj [(''share'', JNum 0)]"

definition example_shared :: store where
  "example_shared =
     example_users\<lparr>shares := [\<lparr>s_id = ''0000000000000000000000d4'', s_hash = ''Ab3dE6gH1j'',
                                s_userId = alice_id, s_createdAt = 6000\<rparr>]\<rparr>"

definition content_io :: io where
  "content_io = \<lparr>io_now = 6500, io_objectId = ''0000000000000000000000c3'', io_salt = example_salt,
                 io_random = ''Qq1Ww2Ee3R''\<rparr>"

definition bookmark_body :: jsval where
  "bookmark_body = JObj [(''title'', JStr '' t ''), (''link'', JStr ''https://x'')]"

definition example_contents :: store where
  "example_contents =
     example_users\<lparr>contents := [\<lparr>c_id = ''0000000000000000000000c3'', c_title = ''t'',
                                  c_link = ''https://x'', c_tags = [], c_userId = alice_id\<rparr>]\<rparr>"

definition delete_body :: jsval where
  "delete_body = JObj [(''contentId'', JStr ''0000000000000000000000c3'')]"

definition unknown_delete_body :: jsval where
  "unknown_delete_body = JObj [(''contentId'', JStr ''0000000000000000000000ff'')]"

definition malformed_delete_body :: jsval where
  "malformed_delete_body = JObj [(''contentId'', JStr ''abc'')]"

definition operator_delete_body :: jsval where
  "operator_delete_body = JObj [(''contentId'', JObj [(''$ne'', JNull)])]"

definition example_orphan :: store where
  "example_orphan = example_shared\<lparr>users := []\<rparr>"

definition example_library :: store where
  "example_library =
     \<lparr>users = users example_users
              @ [\<lparr>u_id = bob_id, u_username = ''bob'',
                  u_password = example_salt @ ''hunter22.......................''\<rparr>],
      contents = contents example_contents
                 @ [\<lparr>c_id = ''0000000000000000000000c4'', c_title = ''u'', c_link = ''https://y'',
                     c_tags = [], c_userId = bob_id\<rparr>,
                    \<lparr>c_id = ''0000000000000000000000c5'', c_title = ''v'', c_link = ''https://z'',
                     c_tags = [''0000000000000000000000f6'', ''0000000000000000000000f7''],
                     c_userId = alice_id\<rparr>],
      tags = [\<lparr>t_id = ''0000000000000000000000f6'', t_name = ''news'', t_color = ''#007bff''\<rparr>],
      shares = shares example_shared\<rparr>"

section \<open>Lists\<close>

lemma set_delete_first: "set (delete_first P xs) \<subseteq> set xs"
  by (induction xs) auto

lemma distinct_map_delete_first:
  "distinct (map f xs) \<Longrightarrow> distinct (map f (delete_first P xs))"
proof (induction xs)
  case Nil
  then show ?case by simp
next
  case (Cons x xs)
  then show ?case using set_delete_first [of P xs] by auto
qed

lemma delete_first_none: "find P xs = None \<Longrightarrow> delete_first P xs = xs"
  by (induction xs) (auto split: if_splits)

lemma find_delete_first_distinct:
  "distinct (map f xs) \<Longrightarrow> find (\<lambda>x. f x = k) (delete_first (\<lambda>x. f x = k) xs) = None"
proof (induction xs)
  case Nil
  then show ?case by simp
next
  case (Cons x xs)
  show ?case
  proof (cases "f x = k")
    case True
    with Cons.prems have "k \<notin> f ` set xs" by auto
    then have "find (\<lambda>x. f x = k) xs = None" by (auto simp: find_None_iff)
    with True show ?thesis by simp
  next
    case False
    with Cons show ?thesis by simp
  qed
qed

lemma delete_first_filter:
  "distinct (map f xs) \<Longrightarrow> \<exists>x\<in>set xs. P x \<Longrightarrow> (\<And>y. P y \<Longrightarrow> f y = k)
   \<Longrightarrow> delete_first P xs = filter (\<lambda>y. f y \<noteq> k) xs"
proof (induction xs)
  case Nil
  then show ?case by simp
next
  case (Cons x xs)
  show ?case
  proof (cases "P x")
    case True
    then have "f x = k" by (rule Cons.prems(3))
    from Cons.prems(1) have "f x \<notin> f ` set xs" by simp
    with \<open>f x = k\<close> have "\<forall>y\<in>set xs. f y \<noteq> k" by (metis imageI)
    then have "filter (\<lambda>y. f y \<noteq> k) xs = xs" by simp
    with True \<open>f x = k\<close> show ?thesis by simp
  next
    case False
    with Cons.prems(2) obtain z where z: "z \<in> set xs" "P z" by auto
    then have "f z = k" using Cons.prems(3) by blast
    with z Cons.prems(1) have "f x \<noteq> k" by auto
    moreover have "delete_first P xs = filter (\<lambda>y. f y \<noteq> k) xs"
      using Cons.IH Cons.prems z by auto
    ultimately show ?thesis using False by simp
  qed
qed

lemma find_distinct:
  "distinct (map f xs) \<Longrightarrow> x \<in> set xs \<Longrightarrow> f x = k \<Longrightarrow> find (\<lambda>y. f y = k) xs = Some x"
proof (induction xs)
  case Nil
  then show ?case by simp
next
  case (Cons y ys)
  then show ?case by (cases "f y = k") force+
qed

lemma find_append_new:
  "find P xs = None \<Longrightarrow> P d \<Longrightarrow> find P (xs @ [d]) = Some d"
  by (induction xs) (auto split: if_splits)

section \<open>Frames: what each handler can change\<close>

lemma signin_frame:
  "contents (snd (signin env io st b)) = contents st
   \<and> shares (snd (signin env io st b)) = shares st
   \<and> tags (snd (signin env io st b)) = tags st"
  by (auto simp: signin_def User_create_def Let_def split: sum.splits option.splits)

lemma signin_users:
  "users (snd (signin env io st b)) = users st
   \<or> (\<exists>d pw. users (snd (signin env io st b)) = users st @ [d]
        \<and> bcrypt_hash env pw (io_salt io) = Some (u_password d)
        \<and> u_id d \<notin> set (map u_id (users st))
        \<and> u_username d \<notin> set (map u_username (users st)))"
  by (auto simp: signin_def User_create_def UserSchema_pre_save_def Let_def split: sum.splits option.splits)

lemma login_frame: "snd (login env io st b) = st"
  by (auto simp: login_def split: sum.splits option.splits)

lemma post_content_frame:
  "users (snd (post_content env io st uid b)) = users st
   \<and> shares (snd (post_content env io st uid b)) = shares st
   \<and> tags (snd (post_content env io st uid b)) = tags st"
  by (auto simp: post_content_def Content_create_def Let_def split: sum.splits option.splits)

lemma post_content_contents:
  "contents (snd (post_content env io st uid b)) = contents st
   \<or> (\<exists>d. contents (snd (post_content env io st uid b)) = contents st @ [d]
        \<and> c_id d \<notin> set (map c_id (contents st))
        \<and> c_title d \<notin> set (map c_title (contents st)))"
  by (auto simp: post_content_def Content_create_def Let_def split: sum.splits option.splits)

lemma get_content_frame: "snd (get_content env st uid) = st"
  by (auto simp: get_content_def split: sum.splits)

lemma delete_content_frame:
  "users (snd (delete_content env st uid b)) = users st
   \<and> shares (snd (delete_content env st uid b)) = shares st
   \<and> tags (snd (delete_content env st uid b)) = tags st"
  by (auto simp: delete_content_def Content_findOneAndDelete_def Let_def split: sum.splits option.splits)

lemma delete_content_contents:
  "contents (snd (delete_content env st uid b)) = contents st
   \<or> (\<exists>P. contents (snd (delete_content env st uid b)) = delete_first P (contents st))"
  by (auto simp: delete_content_def Content_findOneAndDelete_def Let_def split: sum.splits option.splits)

lemma brain_share_frame:
  "users (snd (brain_share env io st uid b)) = users st
   \<and> contents (snd (brain_share env io st uid b)) = contents st
   \<and> tags (snd (brain_share env io st uid b)) = tags st"
  by (auto simp: brain_share_def Share_create_def Share_deleteOne_def Share_findOne_userId_def Let_def split: sum.splits option.splits)

lemma brain_share_shares:
  "shares (snd (brain_share env io st uid b)) = shares st
   \<or> (\<exists>d. shares (snd (brain_share env io st uid b)) = shares st @ [d]
        \<and> s_userId d \<notin> set (map s_userId (shares st))
        \<and> s_hash d \<notin> set (map s_hash (shares st)))
   \<or> (\<exists>P. shares (snd (brain_share env io st uid b)) = delete_first P (shares st))"
  by (auto simp: brain_share_def Share_create_def Share_deleteOne_def Share_findOne_userId_def
      Let_def find_None_iff split: sum.splits option.splits)

lemma get_brain_frame: "snd (get_brain st h) = st"
  by (auto simp: get_brain_def Let_def split: option.splits)

lemma guarded_snd:
  "snd (guarded env io st req handler) = st
   \<or> (\<exists>uid. truthy uid \<and> snd (guarded env io st req handler) = snd (handler uid))"
  by (auto simp: guarded_def userMiddleware_def split: sum.splits option.splits if_splits)

lemma app_snd:
  "snd (app env io st req) = st
   \<or> snd (app env io st req) = snd (signin env io st (reqbody req))
   \<or> (\<exists>uid. truthy uid \<and> snd (app env io st req) = snd (post_content env io st uid (reqbody req)))
   \<or> (\<exists>uid. truthy uid \<and> snd (app env io st req) = snd (delete_content env st uid (reqbody req)))
   \<or> (\<exists>uid. truthy uid \<and> snd (app env io st req) = snd (brain_share env io st uid (reqbody req)))"
proof (cases "route req")
  case POST_signin
  then show ?thesis by (simp add: app_def)
next
  case POST_login
  then show ?thesis by (simp add: app_def login_frame)
next
  case POST_content
  then show ?thesis
    using guarded_snd [of env io st req "\<lambda>userId. post_content env io st userId (reqbody req)"]
    by (auto simp: app_def)
next
  case GET_content
  then show ?thesis
    using guarded_snd [of env io st req "\<lambda>userId. get_content env st userId"]
    by (auto simp: app_def get_content_frame)
next
  case DELETE_content
  then show ?thesis
    using guarded_snd [of env io st req "\<lambda>userId. delete_content env st userId (reqbody req)"]
    by (auto simp: app_def)
next
  case POST_brain_share
  then show ?thesis
    using guarded_snd [of env io st req "\<lambda>userId. brain_share env io st userId (reqbody req)"]
    by (auto simp: app_def)
next
  case (GET_brain h)
  then show ?thesis by (simp add: app_def get_brain_frame)
qed

lemma app_users:
  "users (snd (app env io st req)) = users st
   \<or> (\<exists>d pw. users (snd (app env io st req)) = users st @ [d]
        \<and> bcrypt_hash env pw (io_salt io) = Some (u_password d)
        \<and> u_id d \<notin> set (map u_id (users st))
        \<and> u_username d \<notin> set (map u_username (users st)))"
  using app_snd [of env io st req]
proof (elim disjE exE conjE)
  assume "snd (app env io st req) = snd (signin env io st (reqbody req))"
  then show ?thesis using signin_users [of env io st "reqbody req"] by auto
qed (simp_all add: post_content_frame delete_content_frame brain_share_frame)

lemma app_contents:
  "contents (snd (app env io st req)) = contents st
   \<or> (\<exists>d. contents (snd (app env io st req)) = contents st @ [d]
        \<and> c_id d \<notin> set (map c_id (contents st))
        \<and> c_title d \<notin> set (map c_title (contents st)))
   \<or> (\<exists>P. contents (snd (app env io st req)) = delete_first P (contents st))"
  using app_snd [of env io st req]
proof (elim disjE exE conjE)
  fix uid
  assume "snd (app env io st req) = snd (post_content env io st uid (reqbody req))"
  then show ?thesis using post_content_contents [of env io st uid "reqbody req"] by auto
next
  fix uid
  assume "snd (app env io st req) = snd (delete_content env st uid (reqbody req))"
  then show ?thesis using delete_content_contents [of env st uid "reqbody req"] by auto
qed (simp_all add: signin_frame brain_share_frame)

lemma app_shares:
  "shares (snd (app env io st req)) = shares st
   \<or> (\<exists>d. shares (snd (app env io st req)) = shares st @ [d]
        \<and> s_userId d \<notin> set (map s_userId (shares st))
        \<and> s_hash d \<notin> set (map s_hash (shares st)))
   \<or> (\<exists>P. shares (snd (app env io st req)) = delete_first P (shares st))"
  using app_snd [of env io st req]
proof (elim disjE exE conjE)
  fix uid
  assume "snd (app env io st req) = snd (brain_share env io st uid (reqbody req))"
  then show ?thesis using brain_share_shares [of env io st uid "reqbody req"] by auto
qed (simp_all add: signin_frame post_content_frame delete_content_frame)

section \<open>Invariants of the reachable stores\<close>

lemma reachable_user_ids_distinct:
  "reachable env st \<Longrightarrow> distinct (map u_id (users st))"
proof (induction rule: reachable.induct)
  case (start ts)
  then show ?case by (simp add: empty_store_def)
next
  case (serve st io req)
  then show ?case
    using app_users [of env io st req] by auto
qed

lemma reachable_passwords_hashed:
  "reachable env st \<Longrightarrow> u \<in> set (users st) \<Longrightarrow> \<exists>pw salt. bcrypt_hash env pw salt = Some (u_password u)"
proof (induction arbitrary: u rule: reachable.induct)
  case (start ts)
  then show ?case by (simp add: empty_store_def)
next
  case (serve st io req)
  from app_users [of env io st req] show ?case
  proof (elim disjE exE conjE)
    assume "users (snd (app env io st req)) = users st"
    with serve show ?thesis by simp
  next
    fix d pw
    assume a: "users (snd (app env io st req)) = users st @ [d]"
       and h: "bcrypt_hash env pw (io_salt io) = Some (u_password d)"
    with serve.prems have "u \<in> set (users st) \<or> u = d" by auto
    then show ?thesis using serve.IH h by blast
  qed
qed

lemma reachable_content_ids_distinct:
  "reachable env st \<Longrightarrow> distinct (map c_id (contents st))"
proof (induction rule: reachable.induct)
  case (start ts)
  then show ?case by (simp add: empty_store_def)
next
  case (serve st io req)
  then show ?case
    using app_contents [of env io st req] by (auto simp: distinct_map_delete_first)
qed

lemma reachable_content_titles_distinct:
  "reachable env st \<Longrightarrow> distinct (map c_title (contents st))"
proof (induction rule: reachable.induct)
  case (start ts)
  then show ?case by (simp add: empty_store_def)
next
  case (serve st io req)
  then show ?case
    using app_contents [of env io st req] by (auto simp: distinct_map_delete_first)
qed

lemma reachable_share_owners_distinct:
  "reachable env st \<Longrightarrow> distinct (map s_userId (shares st))"
proof (induction rule: reachable.induct)
  case (start ts)
  then show ?case by (simp add: empty_store_def)
next
  case (serve st io req)
  then show ?case
    using app_shares [of env io st req] by (auto simp: distinct_map_delete_first)
qed

lemma reachable_share_hashes_distinct:
  "reachable env st \<Longrightarrow> distinct (map s_hash (shares st))"
proof (induction rule: reachable.induct)
  case (start ts)
  then show ?case by (simp add: empty_store_def)
next
  case (serve st io req)
  then show ?case
    using app_shares [of env io st req] by (auto simp: distinct_map_delete_first)
qed

section \<open>The example instance, evaluated\<close>

lemmas example_defs =
  example_env_def example_io_def example_token_def example_payload_def example_salt_def
  alice_id_def bob_id_def alice_body_def example_users_def unknown_user_body_def
  wrong_password_body_def

lemmas parse_defs =
  userSchema_parse_def contentSchema_parse_def z_string_def prop_of_def trim_def is_space_def
  issues_of_def

lemmas share_defs = share_io_def later_io_def share_on_def share_off_def example_shared_def

lemmas content_defs = content_io_def bookmark_body_def example_contents_def

lemmas library_defs = example_orphan_def example_library_def example_shared_def example_contents_def

lemma example_guard:
  "userMiddleware example_env 6000 (Some example_token) = Inr (JStr alice_id)"
  by (simp add: userMiddleware_def jwt_verify_def example_defs)

lemma cast_alice: "castObjectId example_env (JStr alice_id) = Some alice_id"
  by (simp add: example_defs)

lemma cast_bob: "castObjectId example_env (JStr bob_id) = Some bob_id"
  by (simp add: example_defs)

lemma signin_alice:
  "signin example_env example_io (empty_store []) alice_body
     = (json 201 (JsonMessage ''success'' ''User created successfully''), example_users)"
  by (simp add: signin_def parse_defs User_findOne_username_def User_create_def
      UserSchema_pre_save_def empty_store_def example_defs)

lemma reachable_example_users: "reachable example_env example_users"
proof -
  have "reachable example_env
          (snd (app example_env example_io (empty_store [])
                  \<lparr>route = POST_signin, authorization = None, reqbody = alice_body\<rparr>))"
    by (rule reachable.serve) (rule reachable.start)
  then show ?thesis by (simp add: app_def signin_alice)
qed

lemma share_alice:
  "brain_share example_env share_io example_users (JStr alice_id) share_on
     = (json 200 (JsonHash ''success'' ''Ab3dE6gH1j'' (Some ''Share link created'')), example_shared)"
  by (simp add: brain_share_def Share_findOne_userId_def Share_create_def prop_of_def
      Let_def example_defs share_defs)

lemma reachable_example_shared: "reachable example_env example_shared"
proof -
  have "reachable example_env
          (snd (app example_env share_io example_users
                  \<lparr>route = POST_brain_share, authorization = Some example_token,
                   reqbody = share_on\<rparr>))"
    by (rule reachable.serve) (rule reachable_example_users)
  moreover have "io_now share_io = 6000" by (simp add: share_io_def)
  ultimately show ?thesis
    by (simp add: app_def guarded_def example_guard share_alice)
qed

lemma parse_bookmark:
  "contentSchema_parse bookmark_body = Inr \<lparr>in_title = ''t'', in_link = ''https://x''\<rparr>"
  by (simp add: parse_defs bookmark_body_def)

lemma post_alice:
  "post_content example_env content_io example_users (JStr alice_id) bookmark_body
     = (json 201 (JsonData ''success'' (Some ''Content added successfully'')
                   (Document (hd (contents example_contents)))), example_contents)"
  by (simp add: post_content_def parse_bookmark Content_create_def Let_def example_defs
      content_io_def example_contents_def)

lemma reachable_example_contents: "reachable example_env example_contents"
proof -
  have "reachable example_env
          (snd (app example_env content_io example_users
                  \<lparr>route = POST_content, authorization = Some example_token,
                   reqbody = bookmark_body\<rparr>))"
    by (rule reachable.serve) (rule reachable_example_users)
  moreover have "userMiddleware example_env (io_now content_io) (Some example_token) = Inr (JStr alice_id)"
    by (simp add: userMiddleware_def jwt_verify_def example_defs content_defs)
  ultimately show ?thesis
    by (simp add: app_def guarded_def post_alice)
qed

section \<open>Deleting content (C1)\<close>

lemma cast_id_filter_plain:
  assumes "truthy cid" "\<forall>vals. cid \<noteq> JArr vals"
      and "\<forall>fs. cid = JObj fs \<longrightarrow> \<not> list_ex (\<lambda>kv. isOperator (fst kv)) fs"
  shows "cast_id_filter env cid = map_option (\<lambda>x. (\<lambda>i. i = x)) (castObjectId env cid)"
  using assms by (cases cid) (simp_all add: cast_id_filter_def)

lemma delete_content_owned:
  assumes "distinct (map c_id (contents st))"
      and "destructure b ''contentId'' = Some cid" "truthy cid"
      and "cast_id_filter env cid = Some (\<lambda>i. i = X)" "castObjectId env uid = Some B"
      and "\<exists>c\<in>set (contents st). c_id c = X \<and> c_userId c = B"
  shows "delete_content env st uid b =
           (json 200 (JsonMessage ''success'' ''Content deleted successfully''),
            st\<lparr>contents := filter (\<lambda>c. c_id c \<noteq> X) (contents st)\<rparr>)"
proof -
  let ?P = "\<lambda>c. c_id c = X \<and> c_userId c = B"
  from assms(6) obtain d where "find ?P (contents st) = Some d"
    by (cases "find ?P (contents st)") (auto simp: find_None_iff)
  moreover have "delete_first ?P (contents st) = filter (\<lambda>c. c_id c \<noteq> X) (contents st)"
    using assms(1,6) by (intro delete_first_filter) auto
  ultimately show ?thesis
    using assms(2-5) by (simp add: delete_content_def Content_findOneAndDelete_def)
qed

lemma delete_content_not_owned:
  assumes "destructure b ''contentId'' = Some cid" "truthy cid"
      and "cast_id_filter env cid = Some (\<lambda>i. i = X)" "castObjectId env uid = Some B"
      and "\<not> (\<exists>c\<in>set (contents st). c_id c = X \<and> c_userId c = B)"
  shows "delete_content env st uid b = (json 404 (JsonMessage ''error'' not_found_or_forbidden), st)"
proof -
  from assms(5) have "find (\<lambda>c. c_id c = X \<and> c_userId c = B) (contents st) = None"
    by (auto simp: find_None_iff)
  then show ?thesis
    using assms(1-4) by (simp add: delete_content_def Content_findOneAndDelete_def)
qed

lemma delete_content_cast_error:
  assumes "destructure b ''contentId'' = Some cid" "truthy cid"
      and "cast_id_filter env cid = None"
  shows "delete_content env st uid b = (json 500 (JsonMessage ''error'' ''Failed to delete content''), st)"
  using assms by (simp add: delete_content_def Content_findOneAndDelete_def)

lemma delete_first_keeps: "x \<in> set xs \<Longrightarrow> \<not> P x \<Longrightarrow> x \<in> set (delete_first P xs)"
  by (induction xs) auto

lemma delete_content_keeps_others:
  assumes "castObjectId env uid = Some B" "c \<in> set (contents st)" "c_userId c \<noteq> B"
  shows "c \<in> set (contents (snd (delete_content env st uid b)))"
  using assms
  by (auto simp: delete_content_def Content_findOneAndDelete_def Let_def delete_first_keeps
      split: option.splits)

lemma get_content_listed:
  assumes "castObjectId env uid = Some B"
  shows "\<exists>L. get_content env st uid = (json 200 (JsonData ''success'' None (Documents L)), st)
           \<and> map cv_id L = map c_id (filter (\<lambda>c. c_userId c = B) (contents st))"
  using assms
  by (intro exI [of _ "map (view_with_user_and_tags st) (filter (\<lambda>c. c_userId c = B) (contents st))"])
    (simp add: get_content_def Content_find_def view_with_user_and_tags_def comp_def)

text \<open>
  C1, as the code has it. The handler puts the \<^verbatim>\<open>contentId\<close> of the body into the filter
  unchecked, so the claim does not hold for every \<^verbatim>\<open>contentId\<close>: a value that does not cast
  to an \<^verbatim>\<open>ObjectId\<close> is answered by 500, and an operator document selects by its condition,
  not by an id. What holds: in a reachable store, for a caller \<open>B\<close> and a \<^verbatim>\<open>contentId\<close>
  that is present, is neither an array nor an operator document, and casts to the id
  \<open>X\<close>: when a content with the id \<open>X\<close> owned by \<open>B\<close> exists, deleting answers 200,
  removes exactly the contents with that id, and the caller's next listing does not
  contain \<open>X\<close>; in every other case (no content with that id, or one owned by somebody
  else) the answer is the same 404 and the store is unchanged. When such a
  \<^verbatim>\<open>contentId\<close> does not cast to an id the answer is 500 and the store is unchanged.
  Whatever the body holds, no content of another owner is deleted.
\<close>

theorem delete_content_owner_only:
  assumes "reachable env st"
      and "destructure b ''contentId'' = Some cid" "truthy cid"
      and "\<forall>vals. cid \<noteq> JArr vals"
      and "\<forall>fs. cid = JObj fs \<longrightarrow> \<not> list_ex (\<lambda>kv. isOperator (fst kv)) fs"
      and "castObjectId env uid = Some B"
  shows "(\<forall>X. castObjectId env cid = Some X
              \<and> (\<exists>c\<in>set (contents st). c_id c = X \<and> c_userId c = B) \<longrightarrow>
            delete_content env st uid b =
              (json 200 (JsonMessage ''success'' ''Content deleted successfully''),
               st\<lparr>contents := filter (\<lambda>c. c_id c \<noteq> X) (contents st)\<rparr>)
            \<and> (\<exists>L. get_content env (snd (delete_content env st uid b)) uid =
                      (json 200 (JsonData ''success'' None (Documents L)),
                       snd (delete_content env st uid b))
                  \<and> X \<notin> set (map cv_id L)
                  \<and> map cv_id L =
                      map c_id (filter (\<lambda>c. c_userId c = B \<and> c_id c \<noteq> X) (contents st))))
       \<and> (\<forall>X. castObjectId env cid = Some X
              \<and> \<not> (\<exists>c\<in>set (contents st). c_id c = X \<and> c_userId c = B) \<longrightarrow>
            delete_content env st uid b =
              (json 404 (JsonMessage ''error'' not_found_or_forbidden), st))
       \<and> (castObjectId env cid = None \<longrightarrow>
            delete_content env st uid b =
              (json 500 (JsonMessage ''error'' ''Failed to delete content''), st))
       \<and> (\<forall>b' c. c \<in> set (contents st) \<and> c_userId c \<noteq> B \<longrightarrow>
            c \<in> set (contents (snd (delete_content env st uid b'))))"
proof -
  have plain: "cast_id_filter env cid = map_option (\<lambda>x. (\<lambda>i. i = x)) (castObjectId env cid)"
    using assms(3-5) by (rule cast_id_filter_plain)
  have ids: "distinct (map c_id (contents st))"
    using assms(1) by (rule reachable_content_ids_distinct)
  show ?thesis
  proof (intro conjI allI impI)
    fix X
    assume a: "castObjectId env cid = Some X
                \<and> (\<exists>c\<in>set (contents st). c_id c = X \<and> c_userId c = B)"
    then have filt: "cast_id_filter env cid = Some (\<lambda>i. i = X)"
      by (simp add: plain)
    from a have owned: "\<exists>c\<in>set (contents st). c_id c = X \<and> c_userId c = B" by simp
    show del: "delete_content env st uid b =
              (json 200 (JsonMessage ''success'' ''Content deleted successfully''),
               st\<lparr>contents := filter (\<lambda>c. c_id c \<noteq> X) (contents st)\<rparr>)"
      using ids assms(2,3) filt assms(6) owned by (rule delete_content_owned)
    let ?st' = "st\<lparr>contents := filter (\<lambda>c. c_id c \<noteq> X) (contents st)\<rparr>"
    obtain L where L: "get_content env ?st' uid = (json 200 (JsonData ''success'' None (Documents L)), ?st')"
        "map cv_id L = map c_id (filter (\<lambda>c. c_userId c = B) (contents ?st'))"
      using get_content_listed [OF assms(6), of ?st'] by blast
    have eq: "filter (\<lambda>c. c_userId c = B) (contents ?st')
                = filter (\<lambda>c. c_userId c = B \<and> c_id c \<noteq> X) (contents st)"
      by (simp add: conj_commute)
    have notin: "X \<notin> set (map cv_id L)"
      unfolding L(2) eq by auto
    show "\<exists>L. get_content env (snd (delete_content env st uid b)) uid =
                      (json 200 (JsonData ''success'' None (Documents L)),
                       snd (delete_content env st uid b))
                  \<and> X \<notin> set (map cv_id L)
                  \<and> map cv_id L =
                      map c_id (filter (\<lambda>c. c_userId c = B \<and> c_id c \<noteq> X) (contents st))"
      using L(1) notin L(2) [unfolded eq] by (intro exI [of _ L]) (simp add: del)
  next
    fix X
    assume a: "castObjectId env cid = Some X
                \<and> \<not> (\<exists>c\<in>set (contents st). c_id c = X \<and> c_userId c = B)"
    then have filt: "cast_id_filter env cid = Some (\<lambda>i. i = X)"
      by (simp add: plain)
    from a have "\<not> (\<exists>c\<in>set (contents st). c_id c = X \<and> c_userId c = B)" by simp
    with assms(2,3) filt assms(6)
    show "delete_content env st uid b = (json 404 (JsonMessage ''error'' not_found_or_forbidden), st)"
      by (rule delete_content_not_owned)
  next
    assume "castObjectId env cid = None"
    then have "cast_id_filter env cid = None" by (simp add: plain)
    with assms(2,3)
    show "delete_content env st uid b =
            (json 500 (JsonMessage ''error'' ''Failed to delete content''), st)"
      by (rule delete_content_cast_error)
  next
    fix b' c
    assume "c \<in> set (contents st) \<and> c_userId c \<noteq> B"
    then show "c \<in> set (contents (snd (delete_content env st uid b')))"
      using delete_content_keeps_others [OF assms(6)] by blast
  qed
qed

text \<open>
  Bob on alice's bookmark, alice on an id that does not exist, alice on her bookmark and
  her listing afterwards, alice with a string that is no id, and bob with an operator
  document, which leaves alice's bookmark where it is.
\<close>

theorem delete_content_owner_only_witness:
  "delete_content example_env example_contents (JStr bob_id) delete_body
     = (json 404 (JsonMessage ''error'' not_found_or_forbidden), example_contents)
   \<and> delete_content example_env example_contents (JStr alice_id) unknown_delete_body
     = (json 404 (JsonMessage ''error'' not_found_or_forbidden), example_contents)
   \<and> delete_content example_env example_contents (JStr alice_id) delete_body
     = (json 200 (JsonMessage ''success'' ''Content deleted successfully''), example_users)
   \<and> get_content example_env example_users (JStr alice_id)
     = (json 200 (JsonData ''success'' None (Documents [])), example_users)
   \<and> delete_content example_env example_contents (JStr alice_id) malformed_delete_body
     = (json 500 (JsonMessage ''error'' ''Failed to delete content''), example_contents)
   \<and> hd (contents example_contents)
       \<in> set (contents (snd (delete_content example_env example_contents (JStr bob_id)
                               operator_delete_body)))"
proof -
  have body: "destructure delete_body ''contentId'' = Some (JStr ''0000000000000000000000c3'')"
      "truthy (JStr ''0000000000000000000000c3'')"
      "\<forall>vals. JStr ''0000000000000000000000c3'' \<noteq> JArr vals"
      "\<forall>fs. JStr ''0000000000000000000000c3'' = JObj fs
              \<longrightarrow> \<not> list_ex (\<lambda>kv. isOperator (fst kv)) fs"
    by (simp_all add: delete_body_def prop_of_def)
  have cast: "castObjectId example_env (JStr ''0000000000000000000000c3'') = Some ''0000000000000000000000c3''"
    by (simp add: example_defs)
  have body': "destructure unknown_delete_body ''contentId'' = Some (JStr ''0000000000000000000000ff'')"
      "truthy (JStr ''0000000000000000000000ff'')"
      "\<forall>vals. JStr ''0000000000000000000000ff'' \<noteq> JArr vals"
      "\<forall>fs. JStr ''0000000000000000000000ff'' = JObj fs
              \<longrightarrow> \<not> list_ex (\<lambda>kv. isOperator (fst kv)) fs"
    by (simp_all add: unknown_delete_body_def prop_of_def)
  have cast': "castObjectId example_env (JStr ''0000000000000000000000ff'') = Some ''0000000000000000000000ff''"
    by (simp add: example_defs)
  have body'': "destructure malformed_delete_body ''contentId'' = Some (JStr ''abc'')"
      "truthy (JStr ''abc'')"
      "\<forall>vals. JStr ''abc'' \<noteq> JArr vals"
      "\<forall>fs. JStr ''abc'' = JObj fs \<longrightarrow> \<not> list_ex (\<lambda>kv. isOperator (fst kv)) fs"
    by (simp_all add: malformed_delete_body_def prop_of_def)
  have cast'': "castObjectId example_env (JStr ''abc'') = None"
    by (simp add: example_defs)
  have not_bob: "castObjectId example_env (JStr ''0000000000000000000000c3'') = Some ''0000000000000000000000c3''
                 \<and> \<not> (\<exists>c\<in>set (contents example_contents).
                       c_id c = ''0000000000000000000000c3'' \<and> c_userId c = bob_id)"
    by (simp add: cast) (simp add: example_contents_def example_defs)
  have not_there: "castObjectId example_env (JStr ''0000000000000000000000ff'') = Some ''0000000000000000000000ff''
                 \<and> \<not> (\<exists>c\<in>set (contents example_contents).
                       c_id c = ''0000000000000000000000ff'' \<and> c_userId c = alice_id)"
    by (simp add: cast') (simp add: example_contents_def example_defs)
  have alice: "castObjectId example_env (JStr ''0000000000000000000000c3'') = Some ''0000000000000000000000c3''
                 \<and> (\<exists>c\<in>set (contents example_contents).
                       c_id c = ''0000000000000000000000c3'' \<and> c_userId c = alice_id)"
    by (simp add: cast) (simp add: example_contents_def example_defs)
  have after: "example_contents\<lparr>contents :=
                  filter (\<lambda>c. c_id c \<noteq> ''0000000000000000000000c3'') (contents example_contents)\<rparr>
               = example_users"
    by (simp add: example_contents_def example_defs)
  note as_bob = delete_content_owner_only [OF reachable_example_contents body cast_bob]
  note as_alice = delete_content_owner_only [OF reachable_example_contents body cast_alice]
  note unknown = delete_content_owner_only [OF reachable_example_contents body' cast_alice]
  note malformed = delete_content_owner_only [OF reachable_example_contents body'' cast_alice]
  have 1: "delete_content example_env example_contents (JStr bob_id) delete_body
     = (json 404 (JsonMessage ''error'' not_found_or_forbidden), example_contents)"
    using not_bob by (rule as_bob [THEN conjunct2, THEN conjunct1, THEN spec, THEN mp])
  have 2: "delete_content example_env example_contents (JStr alice_id) unknown_delete_body
     = (json 404 (JsonMessage ''error'' not_found_or_forbidden), example_contents)"
    using not_there by (rule unknown [THEN conjunct2, THEN conjunct1, THEN spec, THEN mp])
  have owned: "delete_content example_env example_contents (JStr alice_id) delete_body =
              (json 200 (JsonMessage ''success'' ''Content deleted successfully''),
               example_contents\<lparr>contents :=
                  filter (\<lambda>c. c_id c \<noteq> ''0000000000000000000000c3'') (contents example_contents)\<rparr>)
            \<and> (\<exists>L. get_content example_env
                      (snd (delete_content example_env example_contents (JStr alice_id) delete_body))
                      (JStr alice_id) =
                      (json 200 (JsonData ''success'' None (Documents L)),
                       snd (delete_content example_env example_contents (JStr alice_id) delete_body))
                  \<and> ''0000000000000000000000c3'' \<notin> set (map cv_id L)
                  \<and> map cv_id L =
                      map c_id (filter (\<lambda>c. c_userId c = alice_id \<and> c_id c \<noteq> ''0000000000000000000000c3'')
                                  (contents example_contents)))"
    using alice by (rule as_alice [THEN conjunct1, THEN spec, THEN mp])
  then have 3: "delete_content example_env example_contents (JStr alice_id) delete_body
     = (json 200 (JsonMessage ''success'' ''Content deleted successfully''), example_users)"
    by (simp add: after)
  from owned obtain L where
    "get_content example_env
        (snd (delete_content example_env example_contents (JStr alice_id) delete_body)) (JStr alice_id)
       = (json 200 (JsonData ''success'' None (Documents L)),
          snd (delete_content example_env example_contents (JStr alice_id) delete_body))"
    "map cv_id L = map c_id (filter (\<lambda>c. c_userId c = alice_id \<and> c_id c \<noteq> ''0000000000000000000000c3'')
                                  (contents example_contents))"
    by blast
  then have "get_content example_env example_users (JStr alice_id)
       = (json 200 (JsonData ''success'' None (Documents L)), example_users)"
    "L = []"
    unfolding 3 by (simp_all add: example_contents_def)
  then have 4: "get_content example_env example_users (JStr alice_id)
     = (json 200 (JsonData ''success'' None (Documents [])), example_users)"
    by simp
  have 5: "delete_content example_env example_contents (JStr alice_id) malformed_delete_body
     = (json 500 (JsonMessage ''error'' ''Failed to delete content''), example_contents)"
    using cast''
    by (rule malformed [THEN conjunct2, THEN conjunct2, THEN conjunct1, THEN mp])
  have "hd (contents example_contents) \<in> set (contents example_contents)
        \<and> c_userId (hd (contents example_contents)) \<noteq> bob_id"
    by (simp add: example_contents_def example_defs)
  then have 6: "hd (contents example_contents)
       \<in> set (contents (snd (delete_content example_env example_contents (JStr bob_id)
                               operator_delete_body)))"
    by (rule as_bob [THEN conjunct2, THEN conjunct2, THEN conjunct2, THEN spec, THEN spec, THEN mp])
  from 1 2 3 4 5 6 show ?thesis by (intro conjI)
qed

text \<open>
  C1 as it was claimed, for every \<^verbatim>\<open>contentId\<close>, fails on the example store, where alice
  owns the one bookmark. No content has the id \<^verbatim>\<open>abc\<close>, and alice's request to delete it
  is answered by 500, not by 404. No content has the id \<^verbatim>\<open>{"$ne": null}\<close>, and alice's
  request to delete it is answered by 200 and removes her bookmark.
\<close>

theorem delete_content_every_contentId_counterexample:
  "''abc'' \<notin> set (map c_id (contents example_contents))
   \<and> delete_content example_env example_contents (JStr alice_id) malformed_delete_body
     = (json 500 (JsonMessage ''error'' ''Failed to delete content''), example_contents)
   \<and> delete_content example_env example_contents (JStr alice_id) operator_delete_body
     = (json 200 (JsonMessage ''success'' ''Content deleted successfully''), example_users)
   \<and> contents example_contents \<noteq> contents example_users"
  by (simp add: delete_content_def Content_findOneAndDelete_def cast_id_filter_def isOperator_def
      prop_of_def malformed_delete_body_def operator_delete_body_def example_contents_def
      example_defs)

section \<open>The public share lookup (C2)\<close>

lemma get_brain_unknown:
  "\<forall>l\<in>set (shares st). s_hash l \<noteq> h \<Longrightarrow>
   get_brain st h = (json 404 (JsonMessage ''error'' ''Share link not found''), st)"
proof -
  assume "\<forall>l\<in>set (shares st). s_hash l \<noteq> h"
  then have "find (\<lambda>l. s_hash l = h) (shares st) = None"
    by (simp add: find_None_iff)
  then show ?thesis by (simp add: get_brain_def Share_findOne_hash_def)
qed

lemma get_brain_owner_missing:
  assumes "Share_findOne_hash st h = Some l" "\<forall>u\<in>set (users st). u_id u \<noteq> s_userId l"
  shows "get_brain st h = (json 404 (JsonMessage ''error'' ''User not found''), st)"
proof -
  from assms(2) have "find (\<lambda>u. u_id u = s_userId l) (users st) = None"
    by (simp add: find_None_iff)
  with assms(1) show ?thesis by (simp add: get_brain_def User_findOne_id_def)
qed

lemma get_brain_found:
  assumes "Share_findOne_hash st h = Some l" "User_findOne_id st (s_userId l) = Some u"
  shows "get_brain st h =
           (json 200 (JsonData ''success'' None
              (Brain (u_username u)
                 (map (view_with_tags st) (filter (\<lambda>c. c_userId c = s_userId l) (contents st)))
                 (s_createdAt l))), st)"
  using assms by (simp add: get_brain_def Content_find_owner_def)

lemma get_brain_ignores_passwords:
  "fst (get_brain (st\<lparr>users := map (\<lambda>u. u\<lparr>u_password := f u\<rparr>) (users st)\<rparr>) h) = fst (get_brain st h)"
proof -
  have find_map: "find (\<lambda>u. u_id u = i) (map (\<lambda>u. u\<lparr>u_password := f u\<rparr>) us)
                    = map_option (\<lambda>u. u\<lparr>u_password := f u\<rparr>) (find (\<lambda>u. u_id u = i) us)" for i us
    by (induction us) auto
  have view: "view_with_tags (st\<lparr>users := us\<rparr>) = view_with_tags st" for us
    by (rule ext) (simp add: view_with_tags_def populate_tags_def)
  show ?thesis
    by (auto simp: get_brain_def Share_findOne_hash_def User_findOne_id_def Content_find_owner_def
        view find_map Let_def split: option.splits)
qed

text \<open>
  C2. The public lookup answers 404 when no mapping has the hash, and 404 when the owner
  of the mapping has no user document. Otherwise it answers 200 with the owner's username,
  the creation time of the mapping and the contents owned by the mapped user, all of them
  and no others, in stored order, each with its tags populated. The route has no guard: the
  answer does not depend on the \<^verbatim>\<open>authorization\<close> header. The answer does not depend on
  any stored password. In a reachable store the mapping found for a hash is the mapping
  with that hash, and the user found for an id is the user with that id.
\<close>

theorem public_share_lookup:
  "((\<forall>l\<in>set (shares st). s_hash l \<noteq> h)
       \<longrightarrow> get_brain st h = (json 404 (JsonMessage ''error'' ''Share link not found''), st))
   \<and> (\<forall>l. reachable env st \<and> l \<in> set (shares st) \<and> s_hash l = h
       \<longrightarrow> Share_findOne_hash st h = Some l)
   \<and> (\<forall>u. reachable env st \<and> u \<in> set (users st)
       \<longrightarrow> User_findOne_id st (u_id u) = Some u)
   \<and> (\<forall>l. Share_findOne_hash st h = Some l \<and> (\<forall>u\<in>set (users st). u_id u \<noteq> s_userId l)
       \<longrightarrow> get_brain st h = (json 404 (JsonMessage ''error'' ''User not found''), st))
   \<and> (\<forall>l u. Share_findOne_hash st h = Some l \<and> User_findOne_id st (s_userId l) = Some u
       \<longrightarrow> (\<exists>cs. get_brain st h =
                   (json 200 (JsonData ''success'' None
                                (Brain (u_username u) cs (s_createdAt l))), st)
              \<and> map cv_id cs = map c_id (filter (\<lambda>c. c_userId c = s_userId l) (contents st))
              \<and> cs = map (view_with_tags st)
                        (filter (\<lambda>c. c_userId c = s_userId l) (contents st))))
   \<and> (\<forall>a b. app env io st \<lparr>route = GET_brain h, authorization = a, reqbody = b\<rparr>
              = get_brain st h)
   \<and> (\<forall>f. fst (get_brain (st\<lparr>users := map (\<lambda>u. u\<lparr>u_password := f u\<rparr>) (users st)\<rparr>) h)
            = fst (get_brain st h))"
proof (intro conjI allI impI)
  assume "\<forall>l\<in>set (shares st). s_hash l \<noteq> h"
  then show "get_brain st h = (json 404 (JsonMessage ''error'' ''Share link not found''), st)"
    by (rule get_brain_unknown)
next
  fix l assume "reachable env st \<and> l \<in> set (shares st) \<and> s_hash l = h"
  then have "distinct (map s_hash (shares st))" "l \<in> set (shares st)" "s_hash l = h"
    by (auto intro: reachable_share_hashes_distinct)
  then show "Share_findOne_hash st h = Some l"
    unfolding Share_findOne_hash_def by (rule find_distinct)
next
  fix u
  assume "reachable env st \<and> u \<in> set (users st)"
  then have "distinct (map u_id (users st))" "u \<in> set (users st)" "u_id u = u_id u"
    by (auto intro: reachable_user_ids_distinct)
  then show "User_findOne_id st (u_id u) = Some u"
    unfolding User_findOne_id_def by (rule find_distinct)
next
  fix l assume "Share_findOne_hash st h = Some l \<and> (\<forall>u\<in>set (users st). u_id u \<noteq> s_userId l)"
  then show "get_brain st h = (json 404 (JsonMessage ''error'' ''User not found''), st)"
    using get_brain_owner_missing by blast
next
  fix l u
  assume "Share_findOne_hash st h = Some l \<and> User_findOne_id st (s_userId l) = Some u"
  then have "get_brain st h =
           (json 200 (JsonData ''success'' None
              (Brain (u_username u)
                 (map (view_with_tags st) (filter (\<lambda>c. c_userId c = s_userId l) (contents st)))
                 (s_createdAt l))), st)"
    using get_brain_found by blast
  then show "\<exists>cs. get_brain st h =
                   (json 200 (JsonData ''success'' None
                                (Brain (u_username u) cs (s_createdAt l))), st)
              \<and> map cv_id cs = map c_id (filter (\<lambda>c. c_userId c = s_userId l) (contents st))
              \<and> cs = map (view_with_tags st)
                        (filter (\<lambda>c. c_userId c = s_userId l) (contents st))"
    by (intro exI [of _ "map (view_with_tags st) (filter (\<lambda>c. c_userId c = s_userId l) (contents st))"])
      (simp add: view_with_tags_def comp_def)
next
  fix a b
  show "app env io st \<lparr>route = GET_brain h, authorization = a, reqbody = b\<rparr> = get_brain st h"
    by (simp add: app_def)
next
  fix f
  show "fst (get_brain (st\<lparr>users := map (\<lambda>u. u\<lparr>u_password := f u\<rparr>) (users st)\<rparr>) h)
            = fst (get_brain st h)"
    by (rule get_brain_ignores_passwords)
qed

text \<open>
  Lookups on example stores: an unknown hash, a mapping whose owner is gone, and alice's
  hash on a store that also holds a bookmark of bob.
\<close>

theorem public_share_lookup_witness:
  "get_brain example_library ''unknown404''
     = (json 404 (JsonMessage ''error'' ''Share link not found''), example_library)
   \<and> Share_findOne_hash example_shared ''Ab3dE6gH1j'' = Some (hd (shares example_shared))
   \<and> User_findOne_id example_shared alice_id = Some (hd (users example_shared))
   \<and> get_brain example_orphan ''Ab3dE6gH1j''
     = (json 404 (JsonMessage ''error'' ''User not found''), example_orphan)
   \<and> get_brain example_library ''Ab3dE6gH1j''
     = (json 200 (JsonData ''success'' None
          (Brain ''alice''
             [\<lparr>cv_id = ''0000000000000000000000c3'', cv_title = ''t'', cv_link = ''https://x'',
               cv_tags = [], cv_userId = Ref alice_id\<rparr>,
              \<lparr>cv_id = ''0000000000000000000000c5'', cv_title = ''v'', cv_link = ''https://z'',
               cv_tags = [\<lparr>tv_id = ''0000000000000000000000f6'', tv_name = ''news'',
                           tv_color = ''#007bff''\<rparr>],
               cv_userId = Ref alice_id\<rparr>]
             6000)), example_library)
   \<and> app example_env example_io example_library
         \<lparr>route = GET_brain ''Ab3dE6gH1j'', authorization = None, reqbody = JUndefined\<rparr>
       = get_brain example_library ''Ab3dE6gH1j''"
proof -
  note lib = public_share_lookup [of example_library _ example_env example_io]
  note sh = public_share_lookup [of example_shared "''Ab3dE6gH1j''" example_env example_io]
  note orphan = public_share_lookup [of example_orphan "''Ab3dE6gH1j''" example_env example_io]
  have "\<forall>l\<in>set (shares example_library). s_hash l \<noteq> ''unknown404''"
    by (simp add: library_defs)
  then have 1: "get_brain example_library ''unknown404''
     = (json 404 (JsonMessage ''error'' ''Share link not found''), example_library)"
    by (rule lib [THEN conjunct1, THEN mp])
  have "reachable example_env example_shared
          \<and> hd (shares example_shared) \<in> set (shares example_shared)
          \<and> s_hash (hd (shares example_shared)) = ''Ab3dE6gH1j''"
    by (simp add: reachable_example_shared) (simp add: example_shared_def)
  then have 2: "Share_findOne_hash example_shared ''Ab3dE6gH1j'' = Some (hd (shares example_shared))"
    by (rule sh [THEN conjunct2, THEN conjunct1, THEN spec, THEN mp])
  have "reachable example_env example_shared
          \<and> hd (users example_shared) \<in> set (users example_shared)"
    by (simp add: reachable_example_shared) (simp add: example_shared_def example_users_def)
  then have "User_findOne_id example_shared (u_id (hd (users example_shared)))
               = Some (hd (users example_shared))"
    by (rule sh [THEN conjunct2, THEN conjunct2, THEN conjunct1, THEN spec, THEN mp])
  then have 3: "User_findOne_id example_shared alice_id = Some (hd (users example_shared))"
    by (simp add: example_shared_def example_users_def)
  have "Share_findOne_hash example_orphan ''Ab3dE6gH1j'' = Some (hd (shares example_shared))
        \<and> (\<forall>u\<in>set (users example_orphan). u_id u \<noteq> s_userId (hd (shares example_shared)))"
    by (simp add: Share_findOne_hash_def library_defs)
  then have 4: "get_brain example_orphan ''Ab3dE6gH1j''
     = (json 404 (JsonMessage ''error'' ''User not found''), example_orphan)"
    by (rule orphan [THEN conjunct2, THEN conjunct2, THEN conjunct2, THEN conjunct1, THEN spec, THEN mp])
  have found: "Share_findOne_hash example_library ''Ab3dE6gH1j'' = Some (hd (shares example_shared))
        \<and> User_findOne_id example_library (s_userId (hd (shares example_shared)))
            = Some (hd (users example_users))"
    by (simp add: Share_findOne_hash_def User_findOne_id_def library_defs example_defs)
  have "\<exists>cs. get_brain example_library ''Ab3dE6gH1j'' =
                   (json 200 (JsonData ''success'' None
                                (Brain (u_username (hd (users example_users))) cs
                                   (s_createdAt (hd (shares example_shared))))), example_library)
              \<and> map cv_id cs = map c_id (filter (\<lambda>c. c_userId c = s_userId (hd (shares example_shared)))
                                            (contents example_library))
              \<and> cs = map (view_with_tags example_library)
                        (filter (\<lambda>c. c_userId c = s_userId (hd (shares example_shared)))
                           (contents example_library))"
    using found
    by (rule lib [THEN conjunct2, THEN conjunct2, THEN conjunct2, THEN conjunct2, THEN conjunct1,
                  THEN spec, THEN spec, THEN mp])
  then obtain cs where cs: "get_brain example_library ''Ab3dE6gH1j'' =
                   (json 200 (JsonData ''success'' None
                                (Brain (u_username (hd (users example_users))) cs
                                   (s_createdAt (hd (shares example_shared))))), example_library)"
      "cs = map (view_with_tags example_library)
                        (filter (\<lambda>c. c_userId c = s_userId (hd (shares example_shared)))
                           (contents example_library))"
    by blast
  have "cs = [\<lparr>cv_id = ''0000000000000000000000c3'', cv_title = ''t'', cv_link = ''https://x'',
               cv_tags = [], cv_userId = Ref alice_id\<rparr>,
              \<lparr>cv_id = ''0000000000000000000000c5'', cv_title = ''v'', cv_link = ''https://z'',
               cv_tags = [\<lparr>tv_id = ''0000000000000000000000f6'', tv_name = ''news'',
                           tv_color = ''#007bff''\<rparr>],
               cv_userId = Ref alice_id\<rparr>]"
    unfolding cs(2)
    by (simp add: view_with_tags_def populate_tags_def List.map_filter_def library_defs example_defs)
  with cs(1) have 5: "get_brain example_library ''Ab3dE6gH1j''
     = (json 200 (JsonData ''success'' None
          (Brain ''alice''
             [\<lparr>cv_id = ''0000000000000000000000c3'', cv_title = ''t'', cv_link = ''https://x'',
               cv_tags = [], cv_userId = Ref alice_id\<rparr>,
              \<lparr>cv_id = ''0000000000000000000000c5'', cv_title = ''v'', cv_link = ''https://z'',
               cv_tags = [\<lparr>tv_id = ''0000000000000000000000f6'', tv_name = ''news'',
                           tv_color = ''#007bff''\<rparr>],
               cv_userId = Ref alice_id\<rparr>]
             6000)), example_library)"
    by (simp add: example_shared_def example_users_def)
  have 6: "app example_env example_io example_library
         \<lparr>route = GET_brain ''Ab3dE6gH1j'', authorization = None, reqbody = JUndefined\<rparr>
       = get_brain example_library ''Ab3dE6gH1j''"
    by (rule lib [THEN conjunct2, THEN conjunct2, THEN conjunct2, THEN conjunct2, THEN conjunct2,
                  THEN conjunct1, THEN spec, THEN spec])
  from 1 2 3 4 5 6 show ?thesis by (intro conjI)
qed

section \<open>Tokens (C3)\<close>

lemma jwt_sign_issued:
  "secret \<noteq> [] \<Longrightarrow>
   jwt_sign env ident secret span_24h t0 =
     Inr (jws_sign env \<lparr>p_id = ident, p_iat = t0 div 1000, p_nbf = None,
                        p_exp = Some (t0 div 1000 + 86400)\<rparr> secret)"
  by (simp add: jwt_sign_def span_24h_def Let_def)

lemma jwt_verify_empty: "jwt_verify env [] secret now = Inl (JsonWebTokenError ''jwt must be provided'')"
  by (simp add: jwt_verify_def)

lemma jwt_verify_issued:
  assumes "jws_verify env tok secret = Some P" "tok \<noteq> []" "secret \<noteq> []"
      and "p_nbf P = None" "p_exp P = Some e"
  shows "jwt_verify env tok secret t = (if e \<le> t div 1000 then Inl TokenExpiredError else Inr P)"
  using assms by (simp add: jwt_verify_def)

text \<open>
  C3. The token issued at a login for the user \<open>u\<close> is the signature over the payload
  that holds \<open>u\<close> as \<^verbatim>\<open>id\<close>, the issuing time in whole seconds as \<^verbatim>\<open>iat\<close> and
  \<^verbatim>\<open>iat\<close> plus 24 hours (86400 seconds) as \<^verbatim>\<open>exp\<close>. While the clock is before
  \<^verbatim>\<open>exp\<close> the guard resolves the token to exactly \<open>u\<close>; at no time does it resolve it
  to another identity; from \<^verbatim>\<open>exp\<close> on, and so from 24 hours after the issue on, the guard
  rejects it. The signature scheme is assumed to give back the payload it signed.
\<close>

theorem token_issue_verify:
  assumes secret: "JWT_PASSWORD env \<noteq> []"
      and P: "P = \<lparr>p_id = JStr u, p_iat = t0 div 1000, p_nbf = None,
                   p_exp = Some (t0 div 1000 + 86400)\<rparr>"
      and tok: "tok = jws_sign env P (JWT_PASSWORD env)"
      and roundtrip: "jws_verify env tok (JWT_PASSWORD env) = Some P"
      and nonempty: "tok \<noteq> []" "u \<noteq> []"
  shows "jwt_sign env (JStr u) (JWT_PASSWORD env) span_24h t0 = Inr tok
       \<and> (\<forall>st b v usr io. userSchema_parse b = Inr v
             \<and> User_findOne_username st (in_username v) = Some usr
             \<and> comparePassword env usr (in_password v) = Some True
             \<and> u_id usr = u \<and> io_now io = t0
           \<longrightarrow> login env io st b = (json 200 (JsonToken ''success'' ''Login successful'' tok), st))
       \<and> (\<forall>t. t div 1000 < t0 div 1000 + 86400
           \<longrightarrow> userMiddleware env t (Some tok) = Inr (JStr u))
       \<and> (\<forall>t v. userMiddleware env t (Some tok) = Inr v \<longrightarrow> v = JStr u)
       \<and> (\<forall>t. t0 div 1000 + 86400 \<le> t div 1000
           \<longrightarrow> userMiddleware env t (Some tok) = Inl (json 401 (JsonError ''Invalid or expired token'')))
       \<and> (\<forall>t. t0 + 24 * 60 * 60 * 1000 \<le> t
           \<longrightarrow> userMiddleware env t (Some tok) = Inl (json 401 (JsonError ''Invalid or expired token'')))"
proof -
  have sign: "jwt_sign env (JStr u) (JWT_PASSWORD env) span_24h t0 = Inr tok"
    using secret by (simp add: jwt_sign_issued P tok)
  have verify: "jwt_verify env tok (JWT_PASSWORD env) t =
      (if t0 div 1000 + 86400 \<le> t div 1000 then Inl TokenExpiredError else Inr P)" for t
    using jwt_verify_issued [OF roundtrip nonempty(1) secret, of "t0 div 1000 + 86400" t]
    by (simp add: P)
  have guard: "userMiddleware env t (Some tok) =
      (if t0 div 1000 + 86400 \<le> t div 1000
       then Inl (json 401 (JsonError ''Invalid or expired token'')) else Inr (JStr u))" for t
    using nonempty by (simp add: userMiddleware_def verify P)
  have ms: "t0 div 1000 + 86400 \<le> t div 1000" if "t0 + 24 * 60 * 60 * 1000 \<le> t" for t
  proof -
    have "(t0 + 86400 * 1000) div 1000 \<le> t div 1000"
      using that by (intro div_le_mono) simp
    then show ?thesis by simp
  qed
  show ?thesis
  proof (intro conjI allI impI)
    show "jwt_sign env (JStr u) (JWT_PASSWORD env) span_24h t0 = Inr tok" by (rule sign)
  next
    fix st b v usr and io :: io
    assume "userSchema_parse b = Inr v
             \<and> User_findOne_username st (in_username v) = Some usr
             \<and> comparePassword env usr (in_password v) = Some True
             \<and> u_id usr = u \<and> io_now io = t0"
    then show "login env io st b = (json 200 (JsonToken ''success'' ''Login successful'' tok), st)"
      using sign by (simp add: login_def)
  next
    fix t assume "t div 1000 < t0 div 1000 + 86400"
    then show "userMiddleware env t (Some tok) = Inr (JStr u)" by (simp add: guard)
  next
    fix t v assume "userMiddleware env t (Some tok) = Inr v"
    then show "v = JStr u" by (simp add: guard split: if_splits)
  next
    fix t assume "t0 div 1000 + 86400 \<le> t div 1000"
    then show "userMiddleware env t (Some tok) = Inl (json 401 (JsonError ''Invalid or expired token''))"
      by (simp add: guard)
  next
    fix t assume "t0 + 24 * 60 * 60 * 1000 \<le> t"
    then show "userMiddleware env t (Some tok) = Inl (json 401 (JsonError ''Invalid or expired token''))"
      using ms [of t] by (simp add: guard)
  qed
qed

text \<open>
  The token of the example instance: issued to alice by a login at 5000 ms, accepted one
  millisecond before its expiry, rejected at its expiry, never resolved to bob.
\<close>

theorem token_issue_verify_witness:
  "jwt_sign example_env (JStr alice_id) (JWT_PASSWORD example_env) span_24h 5000 = Inr example_token
   \<and> login example_env example_io example_users alice_body
       = (json 200 (JsonToken ''success'' ''Login successful'' example_token), example_users)
   \<and> userMiddleware example_env 86404999 (Some example_token) = Inr (JStr alice_id)
   \<and> userMiddleware example_env 86405000 (Some example_token)
       = Inl (json 401 (JsonError ''Invalid or expired token''))
   \<and> userMiddleware example_env 86405000 (Some example_token) \<noteq> Inr (JStr bob_id)"
proof -
  have secret: "JWT_PASSWORD example_env \<noteq> []"
    by (simp add: example_defs)
  have P: "example_payload = \<lparr>p_id = JStr alice_id, p_iat = 5000 div 1000, p_nbf = None,
                               p_exp = Some (5000 div 1000 + 86400)\<rparr>"
    by (simp add: example_defs)
  have tok: "example_token = jws_sign example_env example_payload (JWT_PASSWORD example_env)"
    by (simp add: example_env_def)
  have roundtrip: "jws_verify example_env example_token (JWT_PASSWORD example_env) = Some example_payload"
    by (simp add: example_env_def)
  have nonempty: "example_token \<noteq> []" "alice_id \<noteq> []"
    by (simp_all add: example_defs)
  note inst = token_issue_verify [OF secret P tok roundtrip nonempty]
  have parse: "userSchema_parse alice_body = Inr \<lparr>in_username = ''alice'', in_password = ''secret1''\<rparr>"
    by (simp add: parse_defs example_defs)
  have found: "User_findOne_username example_users ''alice'' = Some (hd (users example_users))"
    by (simp add: User_findOne_username_def example_defs)
  have cmp: "comparePassword example_env (hd (users example_users)) ''secret1'' = Some True"
    by (simp add: comparePassword_def bcrypt_compare_def example_defs)
  have ident: "u_id (hd (users example_users)) = alice_id \<and> io_now example_io = 5000"
    by (simp add: example_defs)
  have 1: "jwt_sign example_env (JStr alice_id) (JWT_PASSWORD example_env) span_24h 5000 = Inr example_token"
    using inst by (elim conjE)
  have "userSchema_parse alice_body = Inr \<lparr>in_username = ''alice'', in_password = ''secret1''\<rparr>
          \<and> User_findOne_username example_users
               (in_username \<lparr>in_username = ''alice'', in_password = ''secret1''\<rparr>)
              = Some (hd (users example_users))
          \<and> comparePassword example_env (hd (users example_users))
               (in_password \<lparr>in_username = ''alice'', in_password = ''secret1''\<rparr>) = Some True
          \<and> u_id (hd (users example_users)) = alice_id \<and> io_now example_io = 5000
        \<longrightarrow> login example_env example_io example_users alice_body
            = (json 200 (JsonToken ''success'' ''Login successful'' example_token), example_users)"
    using inst by (elim conjE) (erule allE, erule allE, erule allE, erule allE, erule allE, assumption)
  then have 2: "login example_env example_io example_users alice_body
       = (json 200 (JsonToken ''success'' ''Login successful'' example_token), example_users)"
    using parse found cmp ident by simp
  have "(86404999::nat) div 1000 < 5000 div 1000 + 86400
        \<longrightarrow> userMiddleware example_env 86404999 (Some example_token) = Inr (JStr alice_id)"
    using inst by (elim conjE) (erule allE [of _ 86404999], assumption)
  then have 3: "userMiddleware example_env 86404999 (Some example_token) = Inr (JStr alice_id)"
    by simp
  have "(5000::nat) div 1000 + 86400 \<le> 86405000 div 1000
        \<longrightarrow> userMiddleware example_env 86405000 (Some example_token)
            = Inl (json 401 (JsonError ''Invalid or expired token''))"
    using inst by (elim conjE) (erule allE [of _ 86405000], erule allE [of _ 86405000], assumption)
  then have 4: "userMiddleware example_env 86405000 (Some example_token)
       = Inl (json 401 (JsonError ''Invalid or expired token''))"
    by simp
  have "userMiddleware example_env 86405000 (Some example_token) = Inr (JStr bob_id)
        \<longrightarrow> JStr bob_id = JStr alice_id"
    using inst by (elim conjE) (erule allE [of "\<lambda>t. \<forall>v. _ t v" 86405000], erule allE [of _ "JStr bob_id"], assumption)
  then have 5: "userMiddleware example_env 86405000 (Some example_token) \<noteq> Inr (JStr bob_id)"
    by (auto simp: example_defs)
  from 1 2 3 4 5 show ?thesis by (intro conjI)
qed

section \<open>The access guard (C4)\<close>

lemma guard_absent: "userMiddleware env now None = Inl (json 401 (JsonError ''Invalid Token''))"
  by (simp add: userMiddleware_def)

lemma guard_rejects_401: "userMiddleware env now h = Inl r \<Longrightarrow> code r = 401"
  by (auto simp: userMiddleware_def json_def split: option.splits if_splits sum.splits)

lemma guard_accepts_iff:
  "userMiddleware env now h = Inr uid \<longleftrightarrow>
     (\<exists>t p. h = Some t \<and> jwt_verify env t (JWT_PASSWORD env) now = Inr p \<and> truthy (p_id p) \<and> uid = p_id p)"
proof (cases h)
  case None
  then show ?thesis by (simp add: userMiddleware_def)
next
  case (Some t)
  show ?thesis
  proof (cases "t = []")
    case True
    with Some show ?thesis by (simp add: userMiddleware_def jwt_verify_empty)
  next
    case False
    with Some show ?thesis
      by (cases "jwt_verify env t (JWT_PASSWORD env) now") (auto simp: userMiddleware_def)
  qed
qed

lemma jwt_verify_malformed:
  "jws_verify env t secret = None \<Longrightarrow> \<exists>e. jwt_verify env t secret now = Inl e"
  by (simp add: jwt_verify_def)

lemma jwt_verify_expired:
  "jws_verify env t secret = Some p \<Longrightarrow> p_exp p = Some e \<Longrightarrow> e \<le> now div 1000
   \<Longrightarrow> \<exists>err. jwt_verify env t secret now = Inl err"
  by (simp add: jwt_verify_def Let_def)

lemma guard_verify_fails:
  "jwt_verify env t (JWT_PASSWORD env) now = Inl e
   \<Longrightarrow> \<exists>r. userMiddleware env now (Some t) = Inl r \<and> code r = 401"
  by (simp add: userMiddleware_def json_def)

text \<open>
  C4. The access guard answers 401 when the \<^verbatim>\<open>authorization\<close> header is absent, when the
  verification of the token fails for any cause (a string that is not a well-formed token
  signed with the secret, an expired token, any other error of \<open>jwt_verify\<close>), and when
  the decoded payload has no truthy \<^verbatim>\<open>id\<close>. In every other case, and only then, it
  passes the request on with the payload's \<^verbatim>\<open>id\<close> bound to it. The string verified is the
  header value itself: nothing is stripped from it.
\<close>

theorem access_guard:
  "userMiddleware env now None = Inl (json 401 (JsonError ''Invalid Token''))
   \<and> (\<forall>t. jws_verify env t (JWT_PASSWORD env) = None
        \<longrightarrow> (\<exists>r. userMiddleware env now (Some t) = Inl r \<and> code r = 401))
   \<and> (\<forall>t p e. jws_verify env t (JWT_PASSWORD env) = Some p \<and> p_exp p = Some e \<and> e \<le> now div 1000
        \<longrightarrow> (\<exists>r. userMiddleware env now (Some t) = Inl r \<and> code r = 401))
   \<and> (\<forall>t e. jwt_verify env t (JWT_PASSWORD env) now = Inl e
        \<longrightarrow> (\<exists>r. userMiddleware env now (Some t) = Inl r \<and> code r = 401))
   \<and> (\<forall>t p. jwt_verify env t (JWT_PASSWORD env) now = Inr p \<and> \<not> truthy (p_id p)
        \<longrightarrow> userMiddleware env now (Some t) = Inl (json 401 (JsonError ''Invalid token payload'')))
   \<and> (\<forall>h uid. userMiddleware env now h = Inr uid \<longleftrightarrow>
        (\<exists>t p. h = Some t \<and> jwt_verify env t (JWT_PASSWORD env) now = Inr p
               \<and> truthy (p_id p) \<and> uid = p_id p))
   \<and> (\<forall>h r. userMiddleware env now h = Inl r \<longrightarrow> code r = 401)"
proof (intro conjI allI impI)
  show "userMiddleware env now None = Inl (json 401 (JsonError ''Invalid Token''))"
    by (rule guard_absent)
next
  fix t assume "jws_verify env t (JWT_PASSWORD env) = None"
  then obtain e where "jwt_verify env t (JWT_PASSWORD env) now = Inl e"
    using jwt_verify_malformed by blast
  then show "\<exists>r. userMiddleware env now (Some t) = Inl r \<and> code r = 401"
    by (rule guard_verify_fails)
next
  fix t p e
  assume "jws_verify env t (JWT_PASSWORD env) = Some p \<and> p_exp p = Some e \<and> e \<le> now div 1000"
  then obtain err where "jwt_verify env t (JWT_PASSWORD env) now = Inl err"
    using jwt_verify_expired by blast
  then show "\<exists>r. userMiddleware env now (Some t) = Inl r \<and> code r = 401"
    by (rule guard_verify_fails)
next
  fix t e assume "jwt_verify env t (JWT_PASSWORD env) now = Inl e"
  then show "\<exists>r. userMiddleware env now (Some t) = Inl r \<and> code r = 401"
    by (rule guard_verify_fails)
next
  fix t p assume a: "jwt_verify env t (JWT_PASSWORD env) now = Inr p \<and> \<not> truthy (p_id p)"
  then have "t \<noteq> []" by (auto simp: jwt_verify_empty)
  with a show "userMiddleware env now (Some t) = Inl (json 401 (JsonError ''Invalid token payload''))"
    by (simp add: userMiddleware_def)
next
  fix h uid
  show "userMiddleware env now h = Inr uid \<longleftrightarrow>
        (\<exists>t p. h = Some t \<and> jwt_verify env t (JWT_PASSWORD env) now = Inr p
               \<and> truthy (p_id p) \<and> uid = p_id p)"
    by (rule guard_accepts_iff)
next
  fix h r assume "userMiddleware env now h = Inl r"
  then show "code r = 401" by (rule guard_rejects_401)
qed

text \<open>
  The guard on the example instance: the token alone is accepted as the identity it
  carries, the same token behind \<^verbatim>\<open>Bearer \<close> is rejected, and so are the token at its
  expiry and a request with no header.
\<close>

theorem access_guard_witness:
  "userMiddleware example_env 5000 (Some example_token) = Inr (JStr alice_id)
   \<and> (\<exists>r. userMiddleware example_env 5000 (Some (''Bearer '' @ example_token)) = Inl r \<and> code r = 401)
   \<and> (\<exists>r. userMiddleware example_env 86405000 (Some example_token) = Inl r \<and> code r = 401)
   \<and> userMiddleware example_env 5000 None = Inl (json 401 (JsonError ''Invalid Token''))"
proof -
  have ok: "jwt_verify example_env example_token (JWT_PASSWORD example_env) 5000 = Inr example_payload"
    by (simp add: jwt_verify_def example_defs)
  have id: "p_id example_payload = JStr alice_id" "truthy (p_id example_payload)"
    by (simp_all add: example_defs)
  have bearer: "jws_verify example_env (''Bearer '' @ example_token) (JWT_PASSWORD example_env) = None"
    by (simp add: example_defs)
  have late: "jws_verify example_env example_token (JWT_PASSWORD example_env) = Some example_payload
              \<and> p_exp example_payload = Some 86405 \<and> (86405::nat) \<le> 86405000 div 1000"
    by (simp add: example_defs)
  have accept: "userMiddleware example_env 5000 h = Inr uid \<longleftrightarrow>
        (\<exists>t p. h = Some t \<and> jwt_verify example_env t (JWT_PASSWORD example_env) 5000 = Inr p
               \<and> truthy (p_id p) \<and> uid = p_id p)" for h uid
    using access_guard [of example_env 5000] by (elim conjE) (erule allE, erule allE, assumption)
  have malformed: "jws_verify example_env t (JWT_PASSWORD example_env) = None
        \<longrightarrow> (\<exists>r. userMiddleware example_env 5000 (Some t) = Inl r \<and> code r = 401)" for t
    using access_guard [of example_env 5000] by (elim conjE) (erule allE, assumption)
  have expired: "jws_verify example_env t (JWT_PASSWORD example_env) = Some p \<and> p_exp p = Some e
        \<and> e \<le> 86405000 div 1000
        \<longrightarrow> (\<exists>r. userMiddleware example_env 86405000 (Some t) = Inl r \<and> code r = 401)" for t p e
    using access_guard [of example_env 86405000]
    by (elim conjE) (erule allE [of _ t], erule allE [of _ p], erule allE [of _ e], assumption)
  have absent: "userMiddleware example_env 5000 None = Inl (json 401 (JsonError ''Invalid Token''))"
    using access_guard [of example_env 5000] by (elim conjE)
  have 1: "userMiddleware example_env 5000 (Some example_token) = Inr (JStr alice_id)"
    unfolding accept using ok id by (intro exI conjI) (rule refl, assumption+, simp)
  have 2: "\<exists>r. userMiddleware example_env 5000 (Some (''Bearer '' @ example_token)) = Inl r \<and> code r = 401"
    using malformed bearer by (rule mp)
  have 3: "\<exists>r. userMiddleware example_env 86405000 (Some example_token) = Inl r \<and> code r = 401"
    using expired late by (rule mp)
  from 1 2 3 absent show ?thesis by (intro conjI)
qed

section \<open>Failed logins (C5)\<close>

text \<open>
  C5. A login with an unknown username and a login with a wrong password for an existing
  username are answered by the same response, status 401 and the body
  \<^verbatim>\<open>{status: "error", message: "Invalid credentials"}\<close>, and neither changes the store.
\<close>

theorem login_failures_indistinguishable:
  assumes "userSchema_parse b1 = Inr v1"
      and "User_findOne_username st1 (in_username v1) = None"
      and "userSchema_parse b2 = Inr v2"
      and "User_findOne_username st2 (in_username v2) = Some u"
      and "comparePassword env u (in_password v2) = Some False"
  shows "login env io1 st1 b1 = (json 401 (JsonMessage ''error'' ''Invalid credentials''), st1)
       \<and> login env io2 st2 b2 = (json 401 (JsonMessage ''error'' ''Invalid credentials''), st2)
       \<and> fst (login env io1 st1 b1) = fst (login env io2 st2 b2)"
  using assms by (simp add: login_def)

text \<open>The two failures on a store that holds the user alice.\<close>

theorem login_failures_indistinguishable_witness:
  "login example_env example_io example_users unknown_user_body
     = (json 401 (JsonMessage ''error'' ''Invalid credentials''), example_users)
   \<and> login example_env example_io example_users wrong_password_body
     = (json 401 (JsonMessage ''error'' ''Invalid credentials''), example_users)"
proof -
  have 1: "userSchema_parse unknown_user_body = Inr \<lparr>in_username = ''mallory'', in_password = ''secret1''\<rparr>"
    by (simp add: parse_defs example_defs)
  have 2: "User_findOne_username example_users ''mallory'' = None"
    by (simp add: User_findOne_username_def example_defs)
  have 3: "userSchema_parse wrong_password_body = Inr \<lparr>in_username = ''alice'', in_password = ''letmein''\<rparr>"
    by (simp add: parse_defs example_defs)
  have 4: "User_findOne_username example_users ''alice'' = Some (hd (users example_users))"
    by (simp add: User_findOne_username_def example_defs)
  have 5: "comparePassword example_env (hd (users example_users)) ''letmein'' = Some False"
    by (simp add: comparePassword_def bcrypt_compare_def example_defs)
  show ?thesis
    using login_failures_indistinguishable
      [of unknown_user_body "\<lparr>in_username = ''mallory'', in_password = ''secret1''\<rparr>" example_users
          wrong_password_body "\<lparr>in_username = ''alice'', in_password = ''letmein''\<rparr>" example_users
          "hd (users example_users)" example_env example_io example_io]
      1 2 3 4 5
    by simp
qed

section \<open>Enabling sharing (C6)\<close>

lemma brain_share_existing:
  assumes "destructure b ''share'' = Some v" "truthy v" "castObjectId env uid = Some u"
      and "find (\<lambda>l. s_userId l = u) (shares st) = Some l"
  shows "brain_share env io st uid b = (json 200 (JsonHash ''success'' (s_hash l) None), st)"
  using assms by (simp add: brain_share_def Share_findOne_userId_def)

lemma brain_share_enabled:
  assumes "destructure b ''share'' = Some v" "truthy v" "castObjectId env uid = Some u"
      and "brain_share env io st uid b = (json 200 (JsonHash ''success'' h m), st1)"
  shows "\<exists>l. find (\<lambda>l. s_userId l = u) (shares st1) = Some l \<and> s_hash l = h"
proof (cases "find (\<lambda>l. s_userId l = u) (shares st)")
  case (Some l)
  with assms show ?thesis
    by (simp add: brain_share_def Share_findOne_userId_def json_def)
next
  case None
  with assms show ?thesis
    by (auto simp: brain_share_def Share_findOne_userId_def Share_create_def json_def Let_def
        find_append_new split: sum.splits if_splits)
qed

text \<open>
  C6. Enabling sharing when the owner already has a mapping answers with the hash of that
  mapping and leaves the store as it is. Hence whenever one enabling request answers with
  a hash, the next one by the same owner answers with the same hash and creates nothing.
\<close>

theorem enable_sharing_idempotent:
  assumes "destructure b ''share'' = Some v" "truthy v"
      and "destructure b' ''share'' = Some v'" "truthy v'"
      and "castObjectId env uid = Some u"
  shows "(\<forall>l. find (\<lambda>l. s_userId l = u) (shares st) = Some l
            \<longrightarrow> brain_share env io st uid b = (json 200 (JsonHash ''success'' (s_hash l) None), st))
       \<and> (\<forall>h m st1. brain_share env io st uid b = (json 200 (JsonHash ''success'' h m), st1)
            \<longrightarrow> brain_share env io' st1 uid b' = (json 200 (JsonHash ''success'' h None), st1))"
proof (intro conjI allI impI)
  fix l assume "find (\<lambda>l. s_userId l = u) (shares st) = Some l"
  then show "brain_share env io st uid b = (json 200 (JsonHash ''success'' (s_hash l) None), st)"
    using assms by (simp add: brain_share_existing)
next
  fix h m st1
  assume "brain_share env io st uid b = (json 200 (JsonHash ''success'' h m), st1)"
  then obtain l where "find (\<lambda>l. s_userId l = u) (shares st1) = Some l" "s_hash l = h"
    using brain_share_enabled [OF assms(1,2,5)] by blast
  then show "brain_share env io' st1 uid b' = (json 200 (JsonHash ''success'' h None), st1)"
    using brain_share_existing [OF assms(3,4,5)] by simp
qed

text \<open>Enabling twice on the example store: one mapping is created, then it is returned.\<close>

theorem enable_sharing_idempotent_witness:
  "brain_share example_env share_io example_users (JStr alice_id) share_on
     = (json 200 (JsonHash ''success'' ''Ab3dE6gH1j'' (Some ''Share link created'')), example_shared)
   \<and> brain_share example_env later_io example_shared (JStr alice_id) share_on
     = (json 200 (JsonHash ''success'' ''Ab3dE6gH1j'' None), example_shared)"
proof -
  have on: "destructure share_on ''share'' = Some (JBool True)" "truthy (JBool True)"
    by (simp_all add: share_on_def prop_of_def)
  note inst = enable_sharing_idempotent
    [OF on on cast_alice, of example_users share_io later_io]
  have "brain_share example_env share_io example_users (JStr alice_id) share_on
          = (json 200 (JsonHash ''success'' ''Ab3dE6gH1j'' (Some ''Share link created'')), example_shared)
        \<longrightarrow> brain_share example_env later_io example_shared (JStr alice_id) share_on
          = (json 200 (JsonHash ''success'' ''Ab3dE6gH1j'' None), example_shared)"
    using inst by (elim conjE) (erule allE, erule allE, erule allE, assumption)
  with share_alice show ?thesis by simp
qed

section \<open>Stored passwords (C7)\<close>

lemma signin_created:
  assumes "signin env io st b = (r, st')" "code r = 201"
  shows "\<exists>v h d. userSchema_parse b = Inr v
           \<and> bcrypt_hash env (in_password v) (io_salt io) = Some h
           \<and> users st' = users st @ [d] \<and> u_password d = h
           \<and> u_id d = io_objectId io \<and> u_username d = trim (in_username v)"
  using assms
  by (auto simp: signin_def User_create_def UserSchema_pre_save_def Let_def json_def
      split: sum.splits option.splits if_splits)

lemma login_ok_iff:
  assumes "userSchema_parse b = Inr v" "User_findOne_username st (in_username v) = Some u"
      and "JWT_PASSWORD env \<noteq> []"
  shows "code (fst (login env io st b)) = 200 \<longleftrightarrow>
           length (u_password u) = 60
           \<and> bcrypt_hash env (in_password v) (take 29 (u_password u)) = Some (u_password u)"
  using assms
  by (auto simp: login_def comparePassword_def bcrypt_compare_def jwt_sign_def json_def Let_def
      split: option.splits)

text \<open>
  C7. A registration that is answered by 201 appends one user whose password field is the
  output of \<^verbatim>\<open>bcrypt.hash\<close> on the submitted password and the salt drawn for the request;
  the field differs from the submitted password unless bcrypt returns its input. In every
  reachable store each password field is an output of \<^verbatim>\<open>bcrypt.hash\<close>. A login for an
  existing user succeeds exactly when hashing the candidate with the salt of the stored
  hash gives the stored hash.
\<close>

theorem passwords_stored_hashed:
  "(\<forall>b r st'. signin env io st b = (r, st') \<and> code r = 201 \<longrightarrow>
      (\<exists>v h d. userSchema_parse b = Inr v
         \<and> bcrypt_hash env (in_password v) (io_salt io) = Some h
         \<and> users st' = users st @ [d] \<and> u_password d = h
         \<and> (bcrypt_hash env (in_password v) (io_salt io) \<noteq> Some (in_password v)
              \<longrightarrow> u_password d \<noteq> in_password v)))
   \<and> (reachable env st \<longrightarrow>
        (\<forall>u\<in>set (users st). \<exists>pw salt. bcrypt_hash env pw salt = Some (u_password u)))
   \<and> (\<forall>b v u. userSchema_parse b = Inr v \<and> User_findOne_username st (in_username v) = Some u
          \<and> JWT_PASSWORD env \<noteq> [] \<longrightarrow>
        (code (fst (login env io st b)) = 200 \<longleftrightarrow>
           length (u_password u) = 60
           \<and> bcrypt_hash env (in_password v) (take 29 (u_password u)) = Some (u_password u)))"
proof (intro conjI allI impI ballI)
  fix b r st'
  assume "signin env io st b = (r, st') \<and> code r = 201"
  then obtain v h d where "userSchema_parse b = Inr v"
      "bcrypt_hash env (in_password v) (io_salt io) = Some h"
      "users st' = users st @ [d]" "u_password d = h"
    using signin_created [of env io st b r st'] by blast
  then show "\<exists>v h d. userSchema_parse b = Inr v
         \<and> bcrypt_hash env (in_password v) (io_salt io) = Some h
         \<and> users st' = users st @ [d] \<and> u_password d = h
         \<and> (bcrypt_hash env (in_password v) (io_salt io) \<noteq> Some (in_password v)
              \<longrightarrow> u_password d \<noteq> in_password v)"
    by auto
next
  fix u assume "reachable env st" "u \<in> set (users st)"
  then show "\<exists>pw salt. bcrypt_hash env pw salt = Some (u_password u)"
    by (rule reachable_passwords_hashed)
next
  fix b v u
  assume "userSchema_parse b = Inr v \<and> User_findOne_username st (in_username v) = Some u
          \<and> JWT_PASSWORD env \<noteq> []"
  then show "code (fst (login env io st b)) = 200 \<longleftrightarrow>
           length (u_password u) = 60
           \<and> bcrypt_hash env (in_password v) (take 29 (u_password u)) = Some (u_password u)"
    using login_ok_iff by blast
qed

text \<open>The registration of alice, and her logins with the right and a wrong password.\<close>

theorem passwords_stored_hashed_witness:
  "users example_users = users (empty_store []) @ [hd (users example_users)]
   \<and> u_password (hd (users example_users)) = ''$2a$10$abcdefghijklmnopqrstuvsecret1........................''
   \<and> bcrypt_hash example_env ''secret1'' (io_salt example_io)
       = Some (u_password (hd (users example_users)))
   \<and> u_password (hd (users example_users)) \<noteq> ''secret1''
   \<and> (\<exists>pw salt. bcrypt_hash example_env pw salt = Some (u_password (hd (users example_users))))
   \<and> code (fst (login example_env example_io example_users alice_body)) = 200
   \<and> code (fst (login example_env example_io example_users wrong_password_body)) \<noteq> 200"
proof -
  have "signin example_env example_io (empty_store []) alice_body
          = (json 201 (JsonMessage ''success'' ''User created successfully''), example_users)
        \<and> code (json 201 (JsonMessage ''success'' ''User created successfully'')) = 201
        \<longrightarrow> (\<exists>v h d. userSchema_parse alice_body = Inr v
         \<and> bcrypt_hash example_env (in_password v) (io_salt example_io) = Some h
         \<and> users example_users = users (empty_store []) @ [d] \<and> u_password d = h
         \<and> (bcrypt_hash example_env (in_password v) (io_salt example_io) \<noteq> Some (in_password v)
              \<longrightarrow> u_password d \<noteq> in_password v))"
    using passwords_stored_hashed [of example_env example_io "empty_store []"]
    by (elim conjE) (erule allE, erule allE, erule allE, assumption)
  then obtain v h d where v: "userSchema_parse alice_body = Inr v"
      and h: "bcrypt_hash example_env (in_password v) (io_salt example_io) = Some h"
      and d: "users example_users = users (empty_store []) @ [d]" "u_password d = h"
      and ne: "bcrypt_hash example_env (in_password v) (io_salt example_io) \<noteq> Some (in_password v)
              \<longrightarrow> u_password d \<noteq> in_password v"
    using signin_alice by (auto simp: json_def)
  have parse: "userSchema_parse alice_body = Inr \<lparr>in_username = ''alice'', in_password = ''secret1''\<rparr>"
    by (simp add: parse_defs example_defs)
  with v have pw: "in_password v = ''secret1''" by auto
  from d(1) have hd: "d = hd (users example_users)" by (simp add: empty_store_def)
  have 1: "users example_users = users (empty_store []) @ [hd (users example_users)]"
    using d(1) hd by simp
  have 2: "u_password (hd (users example_users)) = ''$2a$10$abcdefghijklmnopqrstuvsecret1........................''"
    by (simp add: example_defs)
  have 3: "bcrypt_hash example_env ''secret1'' (io_salt example_io)
       = Some (u_password (hd (users example_users)))"
    using h d(2) pw hd by simp
  have "bcrypt_hash example_env ''secret1'' (io_salt example_io) \<noteq> Some ''secret1''"
    by (simp add: example_defs)
  with ne pw hd have 4: "u_password (hd (users example_users)) \<noteq> ''secret1''" by simp
  have "\<forall>u\<in>set (users example_users). \<exists>pw salt. bcrypt_hash example_env pw salt = Some (u_password u)"
    using passwords_stored_hashed [of example_env example_io example_users] reachable_example_users
    by (elim conjE) (erule mp)
  then have 5: "\<exists>pw salt. bcrypt_hash example_env pw salt = Some (u_password (hd (users example_users)))"
    by (simp add: example_users_def)
  have found: "User_findOne_username example_users ''alice'' = Some (hd (users example_users))"
    by (simp add: User_findOne_username_def example_defs)
  have secret: "JWT_PASSWORD example_env \<noteq> []" by (simp add: example_defs)
  have iff: "userSchema_parse b = Inr w \<and> User_findOne_username example_users (in_username w) = Some u
          \<and> JWT_PASSWORD example_env \<noteq> [] \<longrightarrow>
        (code (fst (login example_env example_io example_users b)) = 200 \<longleftrightarrow>
           length (u_password u) = 60
           \<and> bcrypt_hash example_env (in_password w) (take 29 (u_password u)) = Some (u_password u))"
    for b w u
    using passwords_stored_hashed [of example_env example_io example_users]
    by (elim conjE) (erule allE [of _ b], erule allE [of _ w], erule allE [of _ u], assumption)
  have 6: "code (fst (login example_env example_io example_users alice_body)) = 200"
    using iff [of alice_body "\<lparr>in_username = ''alice'', in_password = ''secret1''\<rparr>"
                  "hd (users example_users)"] parse found secret
    by (simp add: example_defs)
  have parse': "userSchema_parse wrong_password_body = Inr \<lparr>in_username = ''alice'', in_password = ''letmein''\<rparr>"
    by (simp add: parse_defs example_defs)
  have 7: "code (fst (login example_env example_io example_users wrong_password_body)) \<noteq> 200"
    using iff [of wrong_password_body "\<lparr>in_username = ''alice'', in_password = ''letmein''\<rparr>"
                  "hd (users example_users)"] parse' found secret
    by (simp add: example_defs)
  from 1 2 3 4 5 6 7 show ?thesis by (intro conjI)
qed

section \<open>Registration and validation failures (C8)\<close>

text \<open>
  C8. \<^verbatim>\<open>POST /signin\<close> is to answer 400 when the validation of the body fails. The
  \<^verbatim>\<open>catch\<close> of its handler does not look for a \<^verbatim>\<open>ZodError\<close>: a body whose username
  has two characters is answered by 500 and the message of an internal error. The handler
  of \<^verbatim>\<open>POST /content\<close> does look for it and answers 400 to a body its schema refuses.
\<close>

theorem signin_validation_failure_is_500:
  "signin env io st (JObj [(''username'', JStr ''ab''), (''password'', JStr ''secret1'')])
     = (json 500 (JsonMessage ''error'' ''Internal server error''), st)
   \<and> fst (post_content env io st uid (JObj [(''title'', JStr []), (''link'', JStr ''https://x'')]))
     = json 400 (JsonErrors ''error'' ''Validation failed'' [TooSmall [''title''] ''Title is required''])"
  by (simp add: signin_def post_content_def parse_defs)

section \<open>Unique titles (C9)\<close>

lemma post_content_duplicate_title:
  assumes "contentSchema_parse b = Inr v" "c \<in> set (contents st)" "c_title c = in_title v"
  shows "post_content env io st uid b = (json 500 (JsonMessage ''error'' ''Failed to add content''), st)"
proof -
  from assms(2,3) have "in_title v \<in> set (map c_title (contents st))"
    by force
  with assms(1) show ?thesis
    by (simp add: post_content_def Content_create_def Let_def split: option.splits)
qed

text \<open>
  C9. The title of a content is unique in the whole collection: creating a content whose
  (trimmed) title is the title of any stored content, whoever owns it and whoever asks,
  is answered by 500 and stores nothing; in every reachable store the titles are pairwise
  distinct.
\<close>

theorem content_title_globally_unique:
  "(\<forall>b v c. contentSchema_parse b = Inr v \<and> c \<in> set (contents st) \<and> c_title c = in_title v
       \<longrightarrow> post_content env io st uid b
            = (json 500 (JsonMessage ''error'' ''Failed to add content''), st))
   \<and> (reachable env st \<longrightarrow> distinct (map c_title (contents st)))"
  using post_content_duplicate_title reachable_content_titles_distinct by blast

text \<open>Bob posts a bookmark under the title of alice's bookmark.\<close>

theorem content_title_globally_unique_witness:
  "post_content example_env later_io example_contents (JStr bob_id) bookmark_body
     = (json 500 (JsonMessage ''error'' ''Failed to add content''), example_contents)
   \<and> distinct (map c_title (contents example_contents))"
proof -
  note inst = content_title_globally_unique [of example_contents example_env]
  have hyp: "contentSchema_parse bookmark_body = Inr \<lparr>in_title = ''t'', in_link = ''https://x''\<rparr>
             \<and> hd (contents example_contents) \<in> set (contents example_contents)
             \<and> c_title (hd (contents example_contents))
                 = in_title \<lparr>in_title = ''t'', in_link = ''https://x''\<rparr>"
    by (simp add: parse_bookmark example_contents_def)
  have "contentSchema_parse bookmark_body = Inr \<lparr>in_title = ''t'', in_link = ''https://x''\<rparr>
             \<and> hd (contents example_contents) \<in> set (contents example_contents)
             \<and> c_title (hd (contents example_contents))
                 = in_title \<lparr>in_title = ''t'', in_link = ''https://x''\<rparr>
        \<longrightarrow> post_content example_env later_io example_contents (JStr bob_id) bookmark_body
            = (json 500 (JsonMessage ''error'' ''Failed to add content''), example_contents)"
    using inst [of later_io "JStr bob_id"]
    by (elim conjE) (erule allE, erule allE, erule allE, assumption)
  with hyp have 1: "post_content example_env later_io example_contents (JStr bob_id) bookmark_body
     = (json 500 (JsonMessage ''error'' ''Failed to add content''), example_contents)"
    by (rule rev_mp)
  have 2: "distinct (map c_title (contents example_contents))"
    using inst [of later_io "JStr bob_id"] reachable_example_contents
    by (elim conjE) (erule mp)
  from 1 2 show ?thesis by (intro conjI)
qed

section \<open>Disabling sharing (C10)\<close>

lemma brain_share_disable:
  assumes "destructure b ''share'' = Some v" "\<not> truthy v" "castObjectId env uid = Some u"
  shows "brain_share env io st uid b =
           (json 200 (JsonMessage ''success'' ''Share link removed''),
            st\<lparr>shares := delete_first (\<lambda>l. s_userId l = u) (shares st)\<rparr>)"
  using assms by (simp add: brain_share_def Share_deleteOne_def)

lemma brain_share_enable_keeps:
  assumes "destructure b ''share'' = Some v" "truthy v"
  shows "set (shares st) \<subseteq> set (shares (snd (brain_share env io st uid b)))
         \<and> body (fst (brain_share env io st uid b)) \<noteq> JsonMessage ''success'' ''Share link removed''"
  using assms
  by (auto simp: brain_share_def Share_findOne_userId_def Share_create_def json_def Let_def
      split: sum.splits option.splits if_splits)

text \<open>
  C10. A body whose \<^verbatim>\<open>share\<close> is falsy (\<^verbatim>\<open>false\<close>, \<^verbatim>\<open>0\<close>, the empty string,
  \<^verbatim>\<open>null\<close>) or absent takes the disabling path: the answer is 200 and the first mapping
  of the caller is deleted; the store is unchanged when the caller has none, and in a
  reachable store the caller has no mapping afterwards. A truthy \<^verbatim>\<open>share\<close> never takes
  that path: no mapping is deleted and the answer is not the one of the removal.
\<close>

theorem share_falsy_disables:
  assumes "castObjectId env uid = Some u"
  shows "(\<forall>b v. destructure b ''share'' = Some v \<and> \<not> truthy v
            \<longrightarrow> brain_share env io st uid b =
                  (json 200 (JsonMessage ''success'' ''Share link removed''),
                   st\<lparr>shares := delete_first (\<lambda>l. s_userId l = u) (shares st)\<rparr>))
       \<and> (\<forall>fs. map_of fs ''share'' = None
            \<longrightarrow> brain_share env io st uid (JObj fs) =
                  (json 200 (JsonMessage ''success'' ''Share link removed''),
                   st\<lparr>shares := delete_first (\<lambda>l. s_userId l = u) (shares st)\<rparr>))
       \<and> (find (\<lambda>l. s_userId l = u) (shares st) = None
            \<longrightarrow> st\<lparr>shares := delete_first (\<lambda>l. s_userId l = u) (shares st)\<rparr> = st)
       \<and> (reachable env st
            \<longrightarrow> find (\<lambda>l. s_userId l = u) (delete_first (\<lambda>l. s_userId l = u) (shares st)) = None)
       \<and> (\<forall>b v. destructure b ''share'' = Some v \<and> truthy v
            \<longrightarrow> set (shares st) \<subseteq> set (shares (snd (brain_share env io st uid b)))
                \<and> body (fst (brain_share env io st uid b))
                    \<noteq> JsonMessage ''success'' ''Share link removed'')"
proof (intro conjI allI impI)
  fix b v assume "destructure b ''share'' = Some v \<and> \<not> truthy v"
  then show "brain_share env io st uid b =
                  (json 200 (JsonMessage ''success'' ''Share link removed''),
                   st\<lparr>shares := delete_first (\<lambda>l. s_userId l = u) (shares st)\<rparr>)"
    using assms by (simp add: brain_share_disable)
next
  fix fs :: "(string \<times> jsval) list"
  assume "map_of fs ''share'' = None"
  then have "destructure (JObj fs) ''share'' = Some JUndefined"
    by (simp add: prop_of_def)
  then show "brain_share env io st uid (JObj fs) =
                  (json 200 (JsonMessage ''success'' ''Share link removed''),
                   st\<lparr>shares := delete_first (\<lambda>l. s_userId l = u) (shares st)\<rparr>)"
    using assms by (simp add: brain_share_disable)
next
  assume "find (\<lambda>l. s_userId l = u) (shares st) = None"
  then show "st\<lparr>shares := delete_first (\<lambda>l. s_userId l = u) (shares st)\<rparr> = st"
    by (simp add: delete_first_none)
next
  assume "reachable env st"
  then show "find (\<lambda>l. s_userId l = u) (delete_first (\<lambda>l. s_userId l = u) (shares st)) = None"
    by (simp add: reachable_share_owners_distinct find_delete_first_distinct)
next
  fix b v assume "destructure b ''share'' = Some v \<and> truthy v"
  then show "set (shares st) \<subseteq> set (shares (snd (brain_share env io st uid b)))"
    using brain_share_enable_keeps by blast
next
  fix b v assume "destructure b ''share'' = Some v \<and> truthy v"
  then show "body (fst (brain_share env io st uid b)) \<noteq> JsonMessage ''success'' ''Share link removed''"
    using brain_share_enable_keeps by blast
qed

text \<open>Disabling on the example store, with \<^verbatim>\<open>share: 0\<close> and with an empty body.\<close>

theorem share_falsy_disables_witness:
  "brain_share example_env later_io example_shared (JStr alice_id) share_off
     = (json 200 (JsonMessage ''success'' ''Share link removed''), example_users)
   \<and> brain_share example_env later_io example_shared (JStr alice_id) (JObj [])
     = (json 200 (JsonMessage ''success'' ''Share link removed''), example_users)
   \<and> brain_share example_env later_io example_users (JStr alice_id) (JObj [])
     = (json 200 (JsonMessage ''success'' ''Share link removed''), example_users)
   \<and> find (\<lambda>l. s_userId l = alice_id) (shares example_users) = None
   \<and> find (\<lambda>l. s_userId l = alice_id)
         (delete_first (\<lambda>l. s_userId l = alice_id) (shares example_shared)) = None
   \<and> set (shares example_users)
       \<subseteq> set (shares (snd (brain_share example_env share_io example_users (JStr alice_id) share_on)))"
proof -
  note inst = share_falsy_disables [OF cast_alice]
  have removed: "example_shared\<lparr>shares := delete_first (\<lambda>l. s_userId l = alice_id) (shares example_shared)\<rparr>
                  = example_users"
    by (simp add: share_defs example_defs)
  have off: "destructure share_off ''share'' = Some (JNum 0) \<and> \<not> truthy (JNum 0)"
    by (simp add: share_off_def prop_of_def)
  have "destructure share_off ''share'' = Some (JNum 0) \<and> \<not> truthy (JNum 0)
        \<longrightarrow> brain_share example_env later_io example_shared (JStr alice_id) share_off =
              (json 200 (JsonMessage ''success'' ''Share link removed''),
               example_shared\<lparr>shares := delete_first (\<lambda>l. s_userId l = alice_id) (shares example_shared)\<rparr>)"
    using inst [of later_io example_shared] by (elim conjE) (erule allE, erule allE, assumption)
  with off removed have 1: "brain_share example_env later_io example_shared (JStr alice_id) share_off
     = (json 200 (JsonMessage ''success'' ''Share link removed''), example_users)"
    by simp
  have "map_of ([] :: (string \<times> jsval) list) ''share'' = None
        \<longrightarrow> brain_share example_env later_io example_shared (JStr alice_id) (JObj []) =
              (json 200 (JsonMessage ''success'' ''Share link removed''),
               example_shared\<lparr>shares := delete_first (\<lambda>l. s_userId l = alice_id) (shares example_shared)\<rparr>)"
    using inst [of later_io example_shared] by (elim conjE) (erule allE [of _ "[]"], assumption)
  with removed have 2: "brain_share example_env later_io example_shared (JStr alice_id) (JObj [])
     = (json 200 (JsonMessage ''success'' ''Share link removed''), example_users)"
    by simp
  have none: "find (\<lambda>l. s_userId l = alice_id) (shares example_users) = None"
    by (simp add: example_defs)
  have "map_of ([] :: (string \<times> jsval) list) ''share'' = None
        \<longrightarrow> brain_share example_env later_io example_users (JStr alice_id) (JObj []) =
              (json 200 (JsonMessage ''success'' ''Share link removed''),
               example_users\<lparr>shares := delete_first (\<lambda>l. s_userId l = alice_id) (shares example_users)\<rparr>)"
    using inst [of later_io example_users] by (elim conjE) (erule allE [of _ "[]"], assumption)
  moreover have "example_users\<lparr>shares := delete_first (\<lambda>l. s_userId l = alice_id) (shares example_users)\<rparr>
                  = example_users"
    using inst [of later_io example_users] none by (elim conjE) (erule mp)
  ultimately have 3: "brain_share example_env later_io example_users (JStr alice_id) (JObj [])
     = (json 200 (JsonMessage ''success'' ''Share link removed''), example_users)"
    by simp
  have 4: "find (\<lambda>l. s_userId l = alice_id)
          (delete_first (\<lambda>l. s_userId l = alice_id) (shares example_shared)) = None"
    using inst [of later_io example_shared] reachable_example_shared
    by (elim conjE) (erule mp)
  have on: "destructure share_on ''share'' = Some (JBool True) \<and> truthy (JBool True)"
    by (simp add: share_on_def prop_of_def)
  have "destructure share_on ''share'' = Some (JBool True) \<and> truthy (JBool True)
        \<longrightarrow> set (shares example_users)
              \<subseteq> set (shares (snd (brain_share example_env share_io example_users (JStr alice_id) share_on)))
            \<and> body (fst (brain_share example_env share_io example_users (JStr alice_id) share_on))
                \<noteq> JsonMessage ''success'' ''Share link removed''"
    using inst [of share_io example_users] by (elim conjE) (erule allE, erule allE, assumption)
  with on have 5: "set (shares example_users)
       \<subseteq> set (shares (snd (brain_share example_env share_io example_users (JStr alice_id) share_on)))"
    by blast
  from 1 2 3 none 4 5 show ?thesis by (intro conjI)
qed

end
